theory Spec2Isabelle
  imports Complex_Main
begin

section \<open>The particle engine of smash-particles.tsx\<close>

text \<open>
  The component \<open>ParticleBursts\<close> keeps six parallel typed arrays (structure of arrays),
  a camera-shake magnitude, the lazily captured base position of the camera and a reference
  to the buffer geometry whose attributes it marks for upload. Two callbacks mutate them:
  \<open>spawnBurst\<close> (run by the trigger effect) and the \<open>useFrame\<close> callback (run once per
  rendered frame).

  Numbers are reals. Rounding is part of the model where a comparison of the program reads
  a rounded value back: the age and the lifetime of a slot, which are stored in a
  \<open>Float32Array\<close> and decide whether the slot is alive, and the shake magnitude, which
  is compared with 0. There every operation on doubles is rounded by \<open>f64\<close> and every
  store into the typed array by \<open>f32\<close>. The arithmetic of positions, velocities, sizes
  and alphas is exact in the model: what is proved about them is the arithmetic that the
  program performs, without the rounding of its results. The platform supplies the two
  rounding functions and the results of \<open>Math.random()\<close>, which are a fixed sequence
  \<open>random\<close> read through a counter of the calls made so far.
\<close>

subsection \<open>Constants\<close>

definition PARTICLE_CAPACITY :: nat where "PARTICLE_CAPACITY = 5000"
definition BURST_PARTICLE_COUNT :: nat where "BURST_PARTICLE_COUNT = 500"
definition SPEED_MIN :: real where "SPEED_MIN = 2.2"
definition SPEED_MAX :: real where "SPEED_MAX = 7"
definition LIFETIME_MIN :: real where "LIFETIME_MIN = 0.8"
definition LIFETIME_MAX :: real where "LIFETIME_MAX = 1.6"
definition VELOCITY_DAMPING :: real where "VELOCITY_DAMPING = 0.98"
definition GRAVITY :: real where "GRAVITY = - 8"
definition IMPULSE_RADIUS :: real where "IMPULSE_RADIUS = 0.2"
definition IMPULSE_STRENGTH :: real where "IMPULSE_STRENGTH = 5"
definition SHAKE_DECAY_PER_SEC :: real where "SHAKE_DECAY_PER_SEC = 1"

subsection \<open>State\<close>

type_synonym vector3 = "real \<times> real \<times> real"

text \<open>
  What the JavaScript engine supplies: the sequence of results of \<open>Math.random()\<close>, the
  rounding of a real to a float32 (a store into a \<open>Float32Array\<close>) and the rounding of a
  real to a double (the result of an arithmetic operation).
\<close>

record platform =
  random :: "nat \<Rightarrow> real"
  f32 :: "real \<Rightarrow> real"
  f64 :: "real \<Rightarrow> real"

text \<open>The trigger prop: \<open>{ stroke: string }\<close>; a null trigger is \<open>None\<close>.\<close>

record trigger =
  stroke :: string

text \<open>
  The \<open>needsUpdate\<close> flags of the buffer geometry. \<open>getAttribute\<close> may return
  \<open>undefined\<close>, which is \<open>None\<close> here.
\<close>

record geometry =
  position_needsUpdate :: bool
  aSize_needsUpdate :: "bool option"
  aAlpha_needsUpdate :: "bool option"

record engine =
  positions :: "real list"
  velocities :: "real list"
  ages :: "real list"
  lifetimes :: "real list"
  sizes :: "real list"
  alphas :: "real list"
  geometryRef :: "geometry option"
  baseCamPosRef :: "vector3 option"
  shakeMagnitudeRef :: real
  camera_position :: vector3
  random_calls :: nat

text \<open>
  The arrays as the \<open>useMemo\<close> initialisers build them, the refs as \<open>useRef\<close> does; the
  geometry reference and the camera come from the render surface.
\<close>

definition initial_engine :: "geometry option \<Rightarrow> vector3 \<Rightarrow> engine" where
  "initial_engine g cam =
     \<lparr> positions = replicate (PARTICLE_CAPACITY * 3) 1000000,
       velocities = replicate (PARTICLE_CAPACITY * 3) 0,
       ages = map real [0..<PARTICLE_CAPACITY],
       lifetimes = replicate PARTICLE_CAPACITY 0,
       sizes = replicate PARTICLE_CAPACITY 0,
       alphas = replicate PARTICLE_CAPACITY 0,
       geometryRef = g,
       baseCamPosRef = None,
       shakeMagnitudeRef = 0,
       camera_position = cam,
       random_calls = 0 \<rparr>"

subsection \<open>spawnBurst\<close>

definition randomBetween :: "real \<Rightarrow> real \<Rightarrow> real \<Rightarrow> real" where
  \<comment> \<open>the third argument is the result of the call of \<open>Math.random()\<close>\<close>
  "randomBetween lo hi r = lo + r * (hi - lo)"

text \<open>
  The first \<open>if\<close> of the loop body (lines 160 to 182): slot \<open>i\<close> is initialised again.
  Seven calls of \<open>Math.random()\<close> are made, in this order: x, y, theta, phi, speed,
  lifetime, size. The lifetime is computed in doubles, from the doubles that the literals
  0.8 and 1.6 denote, and stored as a float32; the age stored is the literal 0.
\<close>

definition respawn :: "platform \<Rightarrow> nat \<Rightarrow> engine \<Rightarrow> engine" where
  "respawn pf i s =
     (let base = i * 3;
          k = random_calls s;
          pos = (positions s)
                  [base + 0 := (random pf k - 0.5) * 0.02,
                   base + 1 := (random pf (k + 1) - 0.5) * 0.02,
                   base + 2 := 0];
          theta = random pf (k + 2) * pi * 2;
          phi = arccos (2 * random pf (k + 3) - 1);
          dirX = sin phi * cos theta;
          dirY = sin phi * sin theta;
          dirZ = cos phi;
          speed = randomBetween SPEED_MIN SPEED_MAX (random pf (k + 4));
          vel = (velocities s)
                  [base + 0 := dirX * speed,
                   base + 1 := dirY * speed,
                   base + 2 := dirZ * speed]
      in s\<lparr> positions := pos,
            velocities := vel,
            ages := (ages s)[i := 0],
            lifetimes := (lifetimes s)
               [i := f32 pf (f64 pf (f64 pf LIFETIME_MIN
                       + f64 pf (random pf (k + 5)
                                 * f64 pf (f64 pf LIFETIME_MAX - f64 pf LIFETIME_MIN))))],
            sizes := (sizes s)[i := 6 + random pf (k + 6) * 10],
            alphas := (alphas s)[i := 1],
            random_calls := k + 7 \<rparr>)"

text \<open>The second \<open>if\<close> of the loop body (lines 186 to 206): the shock wave.\<close>

definition impulse :: "nat \<Rightarrow> engine \<Rightarrow> engine" where
  "impulse i s =
     (let base = i * 3 in
      if ages s ! i < lifetimes s ! i then
        (let x = positions s ! (base + 0);
             y = positions s ! (base + 1);
             z = positions s ! (base + 2);
             dist2 = x * x + y * y + z * z;
             r2 = IMPULSE_RADIUS * IMPULSE_RADIUS
         in if dist2 < r2 then
              (let dist = max 0.0001 (sqrt dist2);
                   falloff = 1 - dist / IMPULSE_RADIUS;
                   strength = IMPULSE_STRENGTH * falloff;
                   nx = x / dist;
                   ny = y / dist;
                   nz = z / dist
               in s\<lparr> velocities := (velocities s)
                       [base + 0 := velocities s ! (base + 0) + nx * strength,
                        base + 1 := velocities s ! (base + 1) + ny * strength,
                        base + 2 := velocities s ! (base + 2) + nz * strength] \<rparr>)
            else s)
      else s)"

text \<open>One iteration of the \<open>for\<close> loop; the second component is the local \<open>spawned\<close>.\<close>

definition spawn_body :: "platform \<Rightarrow> nat \<Rightarrow> engine \<times> nat \<Rightarrow> engine \<times> nat" where
  "spawn_body pf i st =
     (let s = fst st; spawned = snd st in
      if spawned < BURST_PARTICLE_COUNT \<and> ages s ! i \<ge> lifetimes s ! i
      then (impulse i (respawn pf i s), spawned + 1)
      else (impulse i s, spawned))"

definition mark_dirty :: "geometry \<Rightarrow> geometry" where
  "mark_dirty g =
     g\<lparr> position_needsUpdate := True,
        aSize_needsUpdate := map_option (\<lambda>_. True) (aSize_needsUpdate g),
        aAlpha_needsUpdate := map_option (\<lambda>_. True) (aAlpha_needsUpdate g) \<rparr>"

definition modifier_keys :: "string list" where
  "modifier_keys = [''Alt'', ''Control'', ''Meta'', ''Shift'']"

definition spawnBurst :: "platform \<Rightarrow> trigger option \<Rightarrow> engine \<Rightarrow> engine" where
  "spawnBurst pf trig s =
     (case trig of
        None \<Rightarrow> s
      | Some t \<Rightarrow>
          if stroke t \<in> set modifier_keys then s
          else
            (let s1 = fst (fold (spawn_body pf) [0..<PARTICLE_CAPACITY] (s, 0));
                 s2 = s1\<lparr> geometryRef := map_option mark_dirty (geometryRef s1) \<rparr>
             in s2\<lparr> shakeMagnitudeRef := max (shakeMagnitudeRef s2) 0.12 \<rparr>))"

subsection \<open>The useFrame callback\<close>

text \<open>
  One iteration of the \<open>for\<close> loop of the callback (lines 233 to 276); the second
  component is the local \<open>anyAlive\<close>. Line 254 adds in doubles and stores a float32;
  lines 257 and 268 read the stored age back.
\<close>

definition integrate :: "platform \<Rightarrow> real \<Rightarrow> nat \<Rightarrow> engine \<times> bool \<Rightarrow> engine \<times> bool" where
  "integrate pf delta i st =
     (let s = fst st;
          life = lifetimes s ! i;
          age = ages s ! i;
          isAlive = age < life
      in if isAlive then
           (let base = i * 3;
                v0 = velocities s;
                v1 = v0[base + 0 := v0 ! (base + 0) * VELOCITY_DAMPING];
                v2 = v1[base + 1 := v1 ! (base + 1) * VELOCITY_DAMPING + GRAVITY * delta];
                v3 = v2[base + 2 := v2 ! (base + 2) * VELOCITY_DAMPING];
                p0 = positions s;
                p1 = p0[base + 0 := p0 ! (base + 0) + v3 ! (base + 0) * delta];
                p2 = p1[base + 1 := p1 ! (base + 1) + v3 ! (base + 1) * delta];
                p3 = p2[base + 2 := p2 ! (base + 2) + v3 ! (base + 2) * delta];
                a1 = (ages s)[i := f32 pf (f64 pf (age + delta))];
                t = min 1 (a1 ! i / max 0.0001 life);
                oneMinusT = 1 - t;
                al1 = (alphas s)[i := oneMinusT * oneMinusT];
                sz1 = (if age < 0.06 then (sizes s)[i := sizes s ! i * 1.04]
                       else (sizes s)[i := sizes s ! i * 0.999]);
                s1 = s\<lparr> velocities := v3, positions := p3, ages := a1,
                         alphas := al1, sizes := sz1 \<rparr>
            in if ages s1 ! i \<ge> life then
                 (s1\<lparr> positions := (positions s1)
                          [base + 0 := 1000000, base + 1 := 1000000, base + 2 := 1000000],
                       alphas := (alphas s1)[i := 0],
                       sizes := (sizes s1)[i := 0] \<rparr>, True)
               else (s1, True))
         else st)"

text \<open>
  The camera shake (lines 294 to 312). The magnitude is a double: the product and the
  difference of lines 305 to 308 are rounded.
\<close>

definition camera_shake :: "platform \<Rightarrow> real \<Rightarrow> engine \<Rightarrow> engine" where
  "camera_shake pf delta s =
     (let s1 = (case baseCamPosRef s of
                  None \<Rightarrow> s\<lparr> baseCamPosRef := Some (camera_position s) \<rparr>
                | Some _ \<Rightarrow> s);
          mag = shakeMagnitudeRef s1;
          b = (case baseCamPosRef s1 of Some c \<Rightarrow> c | None \<Rightarrow> camera_position s1);
          bx = fst b; by = fst (snd b); bz = snd (snd b)
      in if mag > 0 then
           (let k = random_calls s1;
                s2 = s1\<lparr> camera_position :=
                           (bx + (random pf k - 0.5) * 2 * mag,
                            by + (random pf (k + 1) - 0.5) * 2 * mag * 0.8,
                            bz + (random pf (k + 2) - 0.5) * 2 * mag * 0.3),
                         random_calls := k + 3 \<rparr>;
                s3 = s2\<lparr> shakeMagnitudeRef :=
                           max 0 (f64 pf (shakeMagnitudeRef s2
                                          - f64 pf (SHAKE_DECAY_PER_SEC * delta))) \<rparr>
            in if shakeMagnitudeRef s3 = 0 then s3\<lparr> camera_position := b \<rparr> else s3)
         else s1)"

definition useFrame_callback :: "platform \<Rightarrow> real \<Rightarrow> engine \<Rightarrow> engine" where
  "useFrame_callback pf delta s =
     (let st = fold (integrate pf delta) [0..<PARTICLE_CAPACITY] (s, False);
          s1 = fst st;
          anyAlive = snd st;
          s2 = (if anyAlive then s1\<lparr> geometryRef := map_option mark_dirty (geometryRef s1) \<rparr>
                else s1)
      in camera_shake pf delta s2)"

text \<open>Several frames in a row, with the elapsed times of the list.\<close>

fun frames :: "platform \<Rightarrow> real list \<Rightarrow> engine \<Rightarrow> engine" where
  "frames pf [] s = s"
| "frames pf (dt # dts) s = frames pf dts (useFrame_callback pf dt s)"

subsection \<open>Auxiliary notions for the proofs\<close>

text \<open>
  Slot \<open>i\<close> of the six arrays, read as one particle. The loops touch one slot per
  iteration, so their effect is stated slot by slot.
\<close>

record particle =
  p_x :: real
  p_y :: real
  p_z :: real
  v_x :: real
  v_y :: real
  v_z :: real
  p_age :: real
  p_life :: real
  p_size :: real
  p_alpha :: real

definition slot :: "engine \<Rightarrow> nat \<Rightarrow> particle" where
  "slot s i =
     \<lparr> p_x = positions s ! (i * 3), p_y = positions s ! (i * 3 + 1),
       p_z = positions s ! (i * 3 + 2),
       v_x = velocities s ! (i * 3), v_y = velocities s ! (i * 3 + 1),
       v_z = velocities s ! (i * 3 + 2),
       p_age = ages s ! i, p_life = lifetimes s ! i,
       p_size = sizes s ! i, p_alpha = alphas s ! i \<rparr>"

text \<open>The arrays have the lengths they were allocated with.\<close>

definition well_formed :: "engine \<Rightarrow> bool" where
  "well_formed s \<longleftrightarrow>
     length (positions s) = PARTICLE_CAPACITY * 3 \<and>
     length (velocities s) = PARTICLE_CAPACITY * 3 \<and>
     length (ages s) = PARTICLE_CAPACITY \<and>
     length (lifetimes s) = PARTICLE_CAPACITY \<and>
     length (sizes s) = PARTICLE_CAPACITY \<and>
     length (alphas s) = PARTICLE_CAPACITY"

text \<open>What the two \<open>for\<close> loops never write.\<close>

definition surroundings :: "engine \<Rightarrow> geometry option \<times> vector3 option \<times> real \<times> vector3" where
  "surroundings s = (geometryRef s, baseCamPosRef s, shakeMagnitudeRef s, camera_position s)"

text \<open>
  What \<open>impulse\<close> and \<open>respawn\<close> do to the slot they work on (lemmas \<open>impulse_same\<close>
  and \<open>respawn_same\<close>); \<open>k\<close> is the number of calls of \<open>Math.random()\<close> made before.
\<close>

definition impulse_slot :: "particle \<Rightarrow> particle" where
  "impulse_slot p =
     (if p_age p < p_life p \<and> p_x p * p_x p + p_y p * p_y p + p_z p * p_z p
           < IMPULSE_RADIUS * IMPULSE_RADIUS
      then (let dist = max 0.0001 (sqrt (p_x p * p_x p + p_y p * p_y p + p_z p * p_z p));
                strength = IMPULSE_STRENGTH * (1 - dist / IMPULSE_RADIUS)
            in p\<lparr> v_x := v_x p + p_x p / dist * strength,
                  v_y := v_y p + p_y p / dist * strength,
                  v_z := v_z p + p_z p / dist * strength \<rparr>)
      else p)"

definition respawn_slot :: "platform \<Rightarrow> nat \<Rightarrow> particle" where
  "respawn_slot pf k =
     \<lparr> p_x = (random pf k - 0.5) * 0.02, p_y = (random pf (k + 1) - 0.5) * 0.02, p_z = 0,
       v_x = sin (arccos (2 * random pf (k + 3) - 1)) * cos (random pf (k + 2) * pi * 2)
               * randomBetween SPEED_MIN SPEED_MAX (random pf (k + 4)),
       v_y = sin (arccos (2 * random pf (k + 3) - 1)) * sin (random pf (k + 2) * pi * 2)
               * randomBetween SPEED_MIN SPEED_MAX (random pf (k + 4)),
       v_z = cos (arccos (2 * random pf (k + 3) - 1))
               * randomBetween SPEED_MIN SPEED_MAX (random pf (k + 4)),
       p_age = 0,
       p_life = f32 pf (f64 pf (f64 pf LIFETIME_MIN
                  + f64 pf (random pf (k + 5)
                            * f64 pf (f64 pf LIFETIME_MAX - f64 pf LIFETIME_MIN)))),
       p_size = 6 + random pf (k + 6) * 10, p_alpha = 1 \<rparr>"

text \<open>
  A slot is dead when its age has reached its lifetime. The loop of \<open>spawnBurst\<close>
  initialises a dead slot again as long as fewer than \<open>BURST_PARTICLE_COUNT\<close> dead slots
  precede it; \<open>spawned_slot\<close> is the slot after the whole loop (lemma \<open>spawnBurst_slot\<close>).
\<close>

definition dead :: "engine \<Rightarrow> nat \<Rightarrow> bool" where
  "dead s i \<longleftrightarrow> ages s ! i \<ge> lifetimes s ! i"

definition alive :: "engine \<Rightarrow> nat \<Rightarrow> bool" where
  "alive s i \<longleftrightarrow> ages s ! i < lifetimes s ! i"

definition dead_before :: "engine \<Rightarrow> nat \<Rightarrow> nat" where
  "dead_before s n = length (filter (dead s) [0..<n])"

definition reinitialized :: "engine \<Rightarrow> nat \<Rightarrow> bool" where
  "reinitialized s i \<longleftrightarrow> dead s i \<and> dead_before s i < BURST_PARTICLE_COUNT"

definition spawned_slot :: "platform \<Rightarrow> engine \<Rightarrow> nat \<Rightarrow> particle" where
  "spawned_slot pf s i =
     (if reinitialized s i
      then impulse_slot (respawn_slot pf (random_calls s + 7 * dead_before s i))
      else impulse_slot (slot s i))"

text \<open>The first \<open>n\<close> iterations of the loop of \<open>spawnBurst\<close>, and their invariant.\<close>

definition spawn_loop :: "platform \<Rightarrow> nat \<Rightarrow> engine \<Rightarrow> engine \<times> nat" where
  "spawn_loop pf n s = fold (spawn_body pf) [0..<n] (s, 0)"

definition spawn_inv :: "platform \<Rightarrow> engine \<Rightarrow> nat \<Rightarrow> engine \<times> nat \<Rightarrow> bool" where
  "spawn_inv pf s n st \<longleftrightarrow>
     well_formed (fst st) \<and> surroundings (fst st) = surroundings s \<and>
     snd st = min BURST_PARTICLE_COUNT (dead_before s n) \<and>
     random_calls (fst st) = random_calls s + 7 * snd st \<and>
     (\<forall>j\<ge>n. slot (fst st) j = slot s j) \<and>
     (\<forall>j<n. slot (fst st) j = spawned_slot pf s j)"

text \<open>
  What one iteration of the loop of the \<open>useFrame\<close> callback does to its slot (lemma
  \<open>integrate_same\<close>), the first \<open>n\<close> iterations of that loop, and their invariant.
\<close>

definition integrate_slot :: "platform \<Rightarrow> real \<Rightarrow> particle \<Rightarrow> particle" where
  "integrate_slot pf delta p =
     (if p_age p < p_life p then
        (let vx = v_x p * VELOCITY_DAMPING;
             vy = v_y p * VELOCITY_DAMPING + GRAVITY * delta;
             vz = v_z p * VELOCITY_DAMPING;
             a = f32 pf (f64 pf (p_age p + delta));
             t = min 1 (a / max 0.0001 (p_life p))
         in if a \<ge> p_life p then
              p\<lparr> p_x := 1000000, p_y := 1000000, p_z := 1000000,
                 v_x := vx, v_y := vy, v_z := vz, p_age := a,
                 p_size := 0, p_alpha := 0 \<rparr>
            else
              p\<lparr> p_x := p_x p + vx * delta, p_y := p_y p + vy * delta,
                 p_z := p_z p + vz * delta,
                 v_x := vx, v_y := vy, v_z := vz, p_age := a,
                 p_size := p_size p * (if p_age p < 0.06 then 1.04 else 0.999),
                 p_alpha := (1 - t) * (1 - t) \<rparr>)
      else p)"

definition frame_loop :: "platform \<Rightarrow> real \<Rightarrow> nat \<Rightarrow> engine \<Rightarrow> engine \<times> bool" where
  "frame_loop pf delta n s = fold (integrate pf delta) [0..<n] (s, False)"

definition frame_inv :: "platform \<Rightarrow> real \<Rightarrow> engine \<Rightarrow> nat \<Rightarrow> engine \<times> bool \<Rightarrow> bool" where
  "frame_inv pf delta s n st \<longleftrightarrow>
     well_formed (fst st) \<and> surroundings (fst st) = surroundings s \<and>
     random_calls (fst st) = random_calls s \<and>
     (\<forall>j\<ge>n. slot (fst st) j = slot s j) \<and>
     (\<forall>j<n. slot (fst st) j = integrate_slot pf delta (slot s j))"

text \<open>
  The fields the camera shake reads and writes. The base position is the captured one or,
  before the first frame, the camera position that the first frame will capture. The
  camera is at rest when the shake magnitude is 0 and it stands at the base position.
\<close>

definition shake_fields :: "engine \<Rightarrow> vector3 option \<times> real \<times> vector3 \<times> nat" where
  "shake_fields s = (baseCamPosRef s, shakeMagnitudeRef s, camera_position s, random_calls s)"

definition base_position :: "engine \<Rightarrow> vector3" where
  "base_position s = (case baseCamPosRef s of Some c \<Rightarrow> c | None \<Rightarrow> camera_position s)"

definition at_rest :: "engine \<Rightarrow> vector3 \<Rightarrow> bool" where
  "at_rest s b \<longleftrightarrow>
     shakeMagnitudeRef s = 0 \<and> camera_position s = b \<and> base_position s = b"

definition ignored :: "trigger option \<Rightarrow> bool" where
  \<comment> \<open>the guard at the head of \<open>spawnBurst\<close>\<close>
  "ignored trig = (case trig of None \<Rightarrow> True | Some t \<Rightarrow> stroke t \<in> set modifier_keys)"

text \<open>
  The invariant of the pool: a dead slot is invisible and parked at the sentinel, and an
  alive slot has a lifetime of at least 1/2 (it was drawn from 0.8 upwards and rounded).
\<close>

definition retired :: "particle \<Rightarrow> bool" where
  "retired p \<longleftrightarrow>
     (p_life p \<le> p_age p \<longrightarrow>
        p_alpha p = 0 \<and> p_size p = 0 \<and>
        p_x p = 1000000 \<and> p_y p = 1000000 \<and> p_z p = 1000000)"

definition settled :: "particle \<Rightarrow> bool" where
  "settled p \<longleftrightarrow> retired p \<and> (p_age p < p_life p \<longrightarrow> 1 / 2 \<le> p_life p)"

definition engine_inv :: "engine \<Rightarrow> bool" where
  "engine_inv s \<longleftrightarrow> well_formed s \<and> (\<forall>i<PARTICLE_CAPACITY. settled (slot s i))"

subsection \<open>Runs of the component\<close>

text \<open>\<open>Math.random()\<close> returns a number in the half-open interval from 0 to 1.\<close>

definition valid_random :: "(nat \<Rightarrow> real) \<Rightarrow> bool" where
  "valid_random r \<longleftrightarrow> (\<forall>n. 0 \<le> r n \<and> r n < 1)"

text \<open>
  Rounding to the nearest number of a binary floating-point format is monotone, and it
  leaves 0 and 1/2, which are numbers of the format, as they are. Nothing else about the
  roundings is used in the general theorems; the roundings of binary64 and binary32
  defined below have these properties (lemmas \<open>rounding_binary64\<close> and
  \<open>rounding_binary32\<close>).
\<close>

definition rounding :: "(real \<Rightarrow> real) \<Rightarrow> bool" where
  "rounding f \<longleftrightarrow> (\<forall>x y. x \<le> y \<longrightarrow> f x \<le> f y) \<and> f 0 = 0 \<and> f (1 / 2) = 1 / 2"

definition valid_platform :: "platform \<Rightarrow> bool" where
  "valid_platform pf \<longleftrightarrow>
     valid_random (random pf) \<and> rounding (f32 pf) \<and> rounding (f64 pf)"

text \<open>
  The states of a mounted component: the arrays start as \<open>useMemo\<close> builds them, the
  renderer attaches the geometry to \<open>geometryRef\<close>, and afterwards the two callbacks run
  in any order, with any trigger and any elapsed time.
\<close>

inductive reachable :: "platform \<Rightarrow> engine \<Rightarrow> bool" for pf :: platform where
  mounted: "reachable pf (initial_engine g cam)"
| attached: "reachable pf s \<Longrightarrow> reachable pf (s\<lparr> geometryRef := g \<rparr>)"
| spawned: "reachable pf s \<Longrightarrow> reachable pf (spawnBurst pf trig s)"
| rendered: "reachable pf s \<Longrightarrow> reachable pf (useFrame_callback pf delta s)"

subsection \<open>The rounding of doubles and of float32 numbers\<close>

text \<open>
  Rounding to the nearest number with a significand of \<open>p\<close> bits, ties to the even
  significand, as IEEE 754 prescribes for binary64 (\<open>p = 53\<close>) and binary32
  (\<open>p = 24\<close>). The exponent is not bounded here: overflow and subnormal numbers do not
  occur in the runs below.
\<close>

definition round_half_even :: "real \<Rightarrow> int" where
  "round_half_even x =
     (let n = \<lfloor>x\<rfloor>; r = x - of_int n
      in if r < 1 / 2 then n else if 1 / 2 < r then n + 1 else if even n then n else n + 1)"

definition round_to :: "nat \<Rightarrow> real \<Rightarrow> real" where
  "round_to p x =
     (if x = 0 then 0
      else (let e = \<lfloor>log 2 \<bar>x\<bar>\<rfloor>;
                u = 2 powr (of_int e - of_nat (p - 1))
            in of_int (round_half_even (x / u)) * u))"

definition binary32 :: "real \<Rightarrow> real" where
  "binary32 = round_to 24"

definition binary64 :: "real \<Rightarrow> real" where
  "binary64 = round_to 53"

subsection \<open>A concrete run\<close>

text \<open>
  A run in which every call of \<open>Math.random()\<close> returns 1/2 and the roundings are the
  identity: the component is mounted with the camera of the canvas at (0, 0, 5), the key
  "a" is pressed, and frames follow.
\<close>

definition rnd_half :: "nat \<Rightarrow> real" where
  "rnd_half n = 1 / 2"

definition exact_half :: platform where
  \<comment> \<open>every random number is 1/2, and no operation of the run has to round\<close>
  "exact_half = \<lparr> random = rnd_half, f32 = (\<lambda>x. x), f64 = (\<lambda>x. x) \<rparr>"

definition key_a :: trigger where
  "key_a = \<lparr> stroke = ''a'' \<rparr>"

definition key_shift :: trigger where
  "key_shift = \<lparr> stroke = ''Shift'' \<rparr>"

definition fresh_engine :: engine where
  "fresh_engine = initial_engine None (0, 0, 5)"

definition centre_particle :: particle where
  \<comment> \<open>what slot initialisation writes when every call of \<open>Math.random()\<close> returns 1/2\<close>
  "centre_particle =
     \<lparr> p_x = 0, p_y = 0, p_z = 0, v_x = - 4.6, v_y = 0, v_z = 0,
       p_age = 0, p_life = 1.2, p_size = 11, p_alpha = 1 \<rparr>"

definition first_burst :: engine where
  "first_burst = spawnBurst exact_half (Some key_a) fresh_engine"

definition drifted :: engine where
  \<comment> \<open>one frame of a hundredth of a second after the first burst\<close>
  "drifted = useFrame_callback exact_half 0.01 first_burst"

definition second_burst :: engine where
  "second_burst = spawnBurst exact_half (Some key_a) drifted"

text \<open>
  A run on doubles: the shake magnitude is the double nearest to 0.12, which is what line
  224 stores, every frame takes the double nearest to 0.024 seconds, and every call of
  \<open>Math.random()\<close> returns 0. The base position is not yet captured and the camera of the
  canvas is at (0, 0, 5); the particles play no part in the camera shake.
\<close>

definition rnd_zero :: "nat \<Rightarrow> real" where
  "rnd_zero n = 0"

definition ieee_zero :: platform where
  "ieee_zero = \<lparr> random = rnd_zero, f32 = binary32, f64 = binary64 \<rparr>"

definition double_0_12 :: real where
  "double_0_12 = 8646911284551352 / 2 ^ 56"

definition double_0_024 :: real where
  "double_0_024 = 6917529027641082 / 2 ^ 58"

definition shaking :: engine where
  "shaking = fresh_engine\<lparr> shakeMagnitudeRef := double_0_12 \<rparr>"

definition five_frames :: "real list" where
  "five_frames = [double_0_024, double_0_024, double_0_024, double_0_024, double_0_024]"

definition centre_burst :: engine where
  \<comment> \<open>a second burst while the particles of the first are still at the origin\<close>
  "centre_burst = spawnBurst exact_half (Some key_a) first_burst"

text \<open>
  The first run again with the roundings of the program: every call of \<open>Math.random()\<close>
  returns 1/2, doubles are binary64 numbers and the typed arrays hold binary32 numbers. The
  lifetime that the burst stores is then the float32 nearest to 1.2, which is
  \<open>10066330 / 2\<^sup>2\<^sup>3\<close> and a little more than 1.2 (lemma \<open>respawn_slot_ieee\<close>).
\<close>

definition ieee_half :: platform where
  "ieee_half = \<lparr> random = rnd_half, f32 = binary32, f64 = binary64 \<rparr>"

definition ieee_burst :: engine where
  "ieee_burst = spawnBurst ieee_half (Some key_a) fresh_engine"

definition float_particle :: particle where
  "float_particle = centre_particle\<lparr> p_life := 10066330 / 2 ^ 23 \<rparr>"

section \<open>Properties of the loops\<close>

subsection \<open>The loop of spawnBurst\<close>

lemma impulse_other: "j \<noteq> i \<Longrightarrow> slot (impulse i s) j = slot s j"
  by (simp add: impulse_def slot_def Let_def)

lemma impulse_same:
  "well_formed s \<Longrightarrow> i < PARTICLE_CAPACITY \<Longrightarrow> slot (impulse i s) i = impulse_slot (slot s i)"
  by (simp add: impulse_def slot_def Let_def impulse_slot_def well_formed_def)

lemma impulse_frame:
  "well_formed (impulse i s) = well_formed s"
  "surroundings (impulse i s) = surroundings s"
  "random_calls (impulse i s) = random_calls s"
  by (simp_all add: impulse_def Let_def well_formed_def surroundings_def)

lemma respawn_other: "j \<noteq> i \<Longrightarrow> slot (respawn pf i s) j = slot s j"
  by (simp add: respawn_def slot_def Let_def)

lemma respawn_same:
  "well_formed s \<Longrightarrow> i < PARTICLE_CAPACITY \<Longrightarrow>
   slot (respawn pf i s) i = respawn_slot pf (random_calls s)"
  by (simp add: respawn_def slot_def Let_def respawn_slot_def well_formed_def)

lemma respawn_frame:
  "well_formed (respawn pf i s) = well_formed s"
  "surroundings (respawn pf i s) = surroundings s"
  "random_calls (respawn pf i s) = random_calls s + 7"
  by (simp_all add: respawn_def Let_def well_formed_def surroundings_def)

lemma dead_slot: "dead s i \<longleftrightarrow> p_life (slot s i) \<le> p_age (slot s i)"
  by (simp add: dead_def slot_def)

lemma alive_slot: "alive s i \<longleftrightarrow> p_age (slot s i) < p_life (slot s i)"
  by (simp add: alive_def slot_def)

lemma dead_before_Suc:
  "dead_before s (Suc n) = (if dead s n then Suc (dead_before s n) else dead_before s n)"
  by (simp add: dead_before_def)

lemma spawn_loop_0: "spawn_loop pf 0 s = (s, 0)"
  by (simp add: spawn_loop_def)

lemma spawn_loop_Suc: "spawn_loop pf (Suc n) s = spawn_body pf n (spawn_loop pf n s)"
  by (simp add: spawn_loop_def)

lemma spawn_body_other: "j \<noteq> i \<Longrightarrow> slot (fst (spawn_body pf i st)) j = slot (fst st) j"
  by (simp add: spawn_body_def Let_def impulse_other respawn_other)

lemma spawn_body_frame:
  "well_formed (fst (spawn_body pf i st)) = well_formed (fst st)"
  "surroundings (fst (spawn_body pf i st)) = surroundings (fst st)"
  by (simp_all add: spawn_body_def Let_def impulse_frame respawn_frame)

lemma spawn_inv_step:
  assumes inv: "spawn_inv pf s n st" and n: "n < PARTICLE_CAPACITY"
  shows "spawn_inv pf s (Suc n) (spawn_body pf n st)"
proof -
  from inv have wf: "well_formed (fst st)"
    and sur: "surroundings (fst st) = surroundings s"
    and cnt: "snd st = min BURST_PARTICLE_COUNT (dead_before s n)"
    and rc: "random_calls (fst st) = random_calls s + 7 * snd st"
    and later: "\<And>j. n \<le> j \<Longrightarrow> slot (fst st) j = slot s j"
    and earlier: "\<And>j. j < n \<Longrightarrow> slot (fst st) j = spawned_slot pf s j"
    by (simp_all add: spawn_inv_def)
  have here: "slot (fst st) n = slot s n" using later by simp
  have dead_eq: "dead (fst st) n = dead s n" by (simp add: dead_slot here)
  have dead_eq': "(lifetimes (fst st) ! n \<le> ages (fst st) ! n) = dead s n"
    using dead_eq by (simp add: dead_def)
  have budget: "snd st < BURST_PARTICLE_COUNT \<longleftrightarrow> dead_before s n < BURST_PARTICLE_COUNT"
    using cnt by auto
  show ?thesis
  proof (cases "reinitialized s n")
    case True
    then have d: "dead s n" and b: "dead_before s n < BURST_PARTICLE_COUNT"
      by (simp_all add: reinitialized_def)
    have sp: "snd st = dead_before s n" using cnt b by simp
    have body: "spawn_body pf n st = (impulse n (respawn pf n (fst st)), snd st + 1)"
      using d b budget dead_eq' by (simp add: spawn_body_def Let_def)
    have wf': "well_formed (respawn pf n (fst st))" using wf by (simp add: respawn_frame)
    have s_n: "slot (impulse n (respawn pf n (fst st))) n = spawned_slot pf s n"
      using True wf wf' n
      by (simp add: impulse_same respawn_same spawned_slot_def rc sp)
    have other: "\<And>j. j \<noteq> n \<Longrightarrow> slot (impulse n (respawn pf n (fst st))) j = slot (fst st) j"
      by (simp add: impulse_other respawn_other)
    show ?thesis
      unfolding spawn_inv_def body
      using wf' sur rc sp d b s_n other later earlier
      by (auto simp add: impulse_frame respawn_frame dead_before_Suc less_Suc_eq)
  next
    case False
    then have nb: "\<not> (snd st < BURST_PARTICLE_COUNT \<and> lifetimes (fst st) ! n \<le> ages (fst st) ! n)"
      using budget dead_eq' by (auto simp add: reinitialized_def)
    have body: "spawn_body pf n st = (impulse n (fst st), snd st)"
      using nb by (simp add: spawn_body_def Let_def)
    have s_n: "slot (impulse n (fst st)) n = spawned_slot pf s n"
      using False wf n by (simp add: impulse_same spawned_slot_def here)
    have other: "\<And>j. j \<noteq> n \<Longrightarrow> slot (impulse n (fst st)) j = slot (fst st) j"
      by (simp add: impulse_other)
    have cnt': "snd st = min BURST_PARTICLE_COUNT (dead_before s (Suc n))"
      using False cnt by (auto simp add: reinitialized_def dead_before_Suc)
    show ?thesis
      unfolding spawn_inv_def body
      using wf sur rc cnt' s_n other later earlier
      by (auto simp add: impulse_frame less_Suc_eq)
  qed
qed

lemma spawn_loop_inv:
  "well_formed s \<Longrightarrow> n \<le> PARTICLE_CAPACITY \<Longrightarrow> spawn_inv pf s n (spawn_loop pf n s)"
proof (induction n)
  case 0
  then show ?case by (simp add: spawn_loop_0 spawn_inv_def dead_before_def)
next
  case (Suc n)
  then show ?case by (simp add: spawn_loop_Suc spawn_inv_step)
qed

lemma spawnBurst_active:
  "stroke t \<notin> set modifier_keys \<Longrightarrow>
   spawnBurst pf (Some t) s =
     (fst (spawn_loop pf PARTICLE_CAPACITY s))
       \<lparr> geometryRef := map_option mark_dirty (geometryRef (fst (spawn_loop pf PARTICLE_CAPACITY s))),
         shakeMagnitudeRef := max (shakeMagnitudeRef (fst (spawn_loop pf PARTICLE_CAPACITY s))) 0.12 \<rparr>"
  by (simp add: spawnBurst_def spawn_loop_def Let_def)

lemma slot_surroundings_update [simp]:
  "slot (s\<lparr> geometryRef := g \<rparr>) i = slot s i"
  "slot (s\<lparr> shakeMagnitudeRef := m \<rparr>) i = slot s i"
  "slot (s\<lparr> baseCamPosRef := b \<rparr>) i = slot s i"
  "slot (s\<lparr> camera_position := c \<rparr>) i = slot s i"
  "slot (s\<lparr> random_calls := k \<rparr>) i = slot s i"
  by (simp_all add: slot_def)

lemma well_formed_surroundings_update [simp]:
  "well_formed (s\<lparr> geometryRef := g \<rparr>) = well_formed s"
  "well_formed (s\<lparr> shakeMagnitudeRef := m \<rparr>) = well_formed s"
  "well_formed (s\<lparr> baseCamPosRef := b \<rparr>) = well_formed s"
  "well_formed (s\<lparr> camera_position := c \<rparr>) = well_formed s"
  "well_formed (s\<lparr> random_calls := k \<rparr>) = well_formed s"
  by (simp_all add: well_formed_def)

lemma spawnBurst_slot:
  assumes "well_formed s" "stroke t \<notin> set modifier_keys" "i < PARTICLE_CAPACITY"
  shows "slot (spawnBurst pf (Some t) s) i = spawned_slot pf s i"
proof -
  have "spawn_inv pf s PARTICLE_CAPACITY (spawn_loop pf PARTICLE_CAPACITY s)"
    using assms(1) by (simp add: spawn_loop_inv)
  then have "slot (fst (spawn_loop pf PARTICLE_CAPACITY s)) i = spawned_slot pf s i"
    using assms(3) by (simp add: spawn_inv_def)
  then show ?thesis using assms(2) by (simp add: spawnBurst_active)
qed

lemma spawnBurst_well_formed:
  assumes "well_formed s"
  shows "well_formed (spawnBurst pf trig s)"
proof (cases trig)
  case None
  then show ?thesis using assms by (simp add: spawnBurst_def)
next
  case (Some t)
  have "spawn_inv pf s PARTICLE_CAPACITY (spawn_loop pf PARTICLE_CAPACITY s)"
    using assms by (simp add: spawn_loop_inv)
  then have "well_formed (fst (spawn_loop pf PARTICLE_CAPACITY s))"
    by (simp add: spawn_inv_def)
  then show ?thesis using Some assms
    by (cases "stroke t \<in> set modifier_keys") (simp_all add: spawnBurst_active, simp add: spawnBurst_def)
qed

subsection \<open>The loop of the useFrame callback\<close>

lemma integrate_other: "j \<noteq> i \<Longrightarrow> slot (fst (integrate pf delta i st)) j = slot (fst st) j"
  by (simp add: integrate_def slot_def Let_def)

lemma integrate_same:
  "well_formed (fst st) \<Longrightarrow> i < PARTICLE_CAPACITY \<Longrightarrow>
   slot (fst (integrate pf delta i st)) i = integrate_slot pf delta (slot (fst st) i)"
  by (simp add: integrate_def slot_def Let_def integrate_slot_def well_formed_def)

lemma integrate_frame:
  "well_formed (fst (integrate pf delta i st)) = well_formed (fst st)"
  "surroundings (fst (integrate pf delta i st)) = surroundings (fst st)"
  "random_calls (fst (integrate pf delta i st)) = random_calls (fst st)"
  by (simp_all add: integrate_def Let_def well_formed_def surroundings_def)

lemma frame_loop_Suc: "frame_loop pf delta (Suc n) s = integrate pf delta n (frame_loop pf delta n s)"
  by (simp add: frame_loop_def)

lemma frame_inv_step:
  assumes inv: "frame_inv pf delta s n st" and n: "n < PARTICLE_CAPACITY"
  shows "frame_inv pf delta s (Suc n) (integrate pf delta n st)"
proof -
  from inv have wf: "well_formed (fst st)"
    and later: "\<And>j. n \<le> j \<Longrightarrow> slot (fst st) j = slot s j"
    and earlier: "\<And>j. j < n \<Longrightarrow> slot (fst st) j = integrate_slot pf delta (slot s j)"
    by (simp_all add: frame_inv_def)
  have s_n: "slot (fst (integrate pf delta n st)) n = integrate_slot pf delta (slot s n)"
    using wf n later by (simp add: integrate_same)
  show ?thesis
    unfolding frame_inv_def
    using inv s_n later earlier
    by (auto simp add: frame_inv_def integrate_frame integrate_other less_Suc_eq)
qed

lemma frame_loop_inv:
  "well_formed s \<Longrightarrow> n \<le> PARTICLE_CAPACITY \<Longrightarrow> frame_inv pf delta s n (frame_loop pf delta n s)"
proof (induction n)
  case 0
  then show ?case by (simp add: frame_loop_def frame_inv_def)
next
  case (Suc n)
  then show ?case by (simp add: frame_loop_Suc frame_inv_step)
qed

lemma camera_shake_slot [simp]: "slot (camera_shake pf delta s) i = slot s i"
  by (simp add: camera_shake_def Let_def slot_def split: option.splits)

lemma camera_shake_well_formed [simp]:
  "well_formed (camera_shake pf delta s) = well_formed s"
  by (simp add: camera_shake_def Let_def well_formed_def split: option.splits)

lemma useFrame_callback_unfold:
  "useFrame_callback pf delta s =
     camera_shake pf delta
       (if snd (frame_loop pf delta PARTICLE_CAPACITY s)
        then (fst (frame_loop pf delta PARTICLE_CAPACITY s))
               \<lparr> geometryRef := map_option mark_dirty
                    (geometryRef (fst (frame_loop pf delta PARTICLE_CAPACITY s))) \<rparr>
        else fst (frame_loop pf delta PARTICLE_CAPACITY s))"
  by (simp add: useFrame_callback_def frame_loop_def Let_def)

lemma useFrame_callback_slot:
  assumes "well_formed s" "i < PARTICLE_CAPACITY"
  shows "slot (useFrame_callback pf delta s) i = integrate_slot pf delta (slot s i)"
proof -
  have "frame_inv pf delta s PARTICLE_CAPACITY (frame_loop pf delta PARTICLE_CAPACITY s)"
    using assms(1) by (simp add: frame_loop_inv)
  then have "slot (fst (frame_loop pf delta PARTICLE_CAPACITY s)) i = integrate_slot pf delta (slot s i)"
    using assms(2) by (simp add: frame_inv_def)
  then show ?thesis by (simp add: useFrame_callback_unfold)
qed

lemma useFrame_callback_well_formed:
  assumes "well_formed s"
  shows "well_formed (useFrame_callback pf delta s)"
proof -
  have "frame_inv pf delta s PARTICLE_CAPACITY (frame_loop pf delta PARTICLE_CAPACITY s)"
    using assms(1) by (simp add: frame_loop_inv)
  then have "well_formed (fst (frame_loop pf delta PARTICLE_CAPACITY s))"
    by (simp add: frame_inv_def)
  then show ?thesis by (simp add: useFrame_callback_unfold)
qed

lemma frames_slot_dead:
  "well_formed s \<Longrightarrow> i < PARTICLE_CAPACITY \<Longrightarrow> p_life (slot s i) \<le> p_age (slot s i) \<Longrightarrow>
   slot (frames pf dts s) i = slot s i"
proof (induction dts arbitrary: s)
  case Nil
  then show ?case by simp
next
  case (Cons dt dts)
  have same: "slot (useFrame_callback pf dt s) i = slot s i"
    using Cons.prems by (simp add: useFrame_callback_slot integrate_slot_def)
  have "slot (frames pf dts (useFrame_callback pf dt s)) i = slot (useFrame_callback pf dt s) i"
    using Cons.prems same by (intro Cons.IH) (simp_all add: useFrame_callback_well_formed)
  then show ?case using same by simp
qed

subsection \<open>The fields of the camera shake\<close>

lemma integrate_shake_fields: "shake_fields (fst (integrate pf delta i st)) = shake_fields (fst st)"
  by (simp add: integrate_def Let_def shake_fields_def)

lemma fold_integrate_shake_fields:
  "shake_fields (fst (fold (integrate pf delta) xs st)) = shake_fields (fst st)"
  by (induction xs arbitrary: st) (simp_all add: integrate_shake_fields)

lemma camera_shake_cong:
  "shake_fields s = shake_fields s' \<Longrightarrow>
   shake_fields (camera_shake pf delta s) = shake_fields (camera_shake pf delta s')"
  by (auto simp add: camera_shake_def Let_def shake_fields_def split: option.splits)

lemma useFrame_callback_shake_fields:
  "shake_fields (useFrame_callback pf delta s) = shake_fields (camera_shake pf delta s)"
  unfolding useFrame_callback_def Let_def
  by (rule camera_shake_cong)
     (simp add: shake_fields_def fold_integrate_shake_fields [unfolded shake_fields_def, simplified])

lemma fold_spawn_body_surroundings:
  "surroundings (fst (fold (spawn_body pf) xs st)) = surroundings (fst st)"
  by (induction xs arbitrary: st) (simp_all add: spawn_body_frame)

lemma not_ignored_key_a: "\<not> ignored (Some key_a)"
  by (simp add: ignored_def key_a_def modifier_keys_def)

lemma fresh_engine_shake: "shakeMagnitudeRef fresh_engine = 0"
  by (simp add: fresh_engine_def initial_engine_def)

subsection \<open>From the slots back to the arrays\<close>

lemma slot_fields:
  "positions s ! (i * 3) = p_x (slot s i)"
  "positions s ! (i * 3 + 1) = p_y (slot s i)"
  "positions s ! (i * 3 + 2) = p_z (slot s i)"
  "velocities s ! (i * 3) = v_x (slot s i)"
  "velocities s ! (i * 3 + 1) = v_y (slot s i)"
  "velocities s ! (i * 3 + 2) = v_z (slot s i)"
  "ages s ! i = p_age (slot s i)"
  "lifetimes s ! i = p_life (slot s i)"
  "sizes s ! i = p_size (slot s i)"
  "alphas s ! i = p_alpha (slot s i)"
  "positions s ! Suc (i * 3) = p_y (slot s i)"
  "positions s ! Suc (Suc (i * 3)) = p_z (slot s i)"
  "velocities s ! Suc (i * 3) = v_y (slot s i)"
  "velocities s ! Suc (Suc (i * 3)) = v_z (slot s i)"
  by (simp_all add: slot_def)

lemma impulse_slot_keeps:
  "p_x (impulse_slot p) = p_x p" "p_y (impulse_slot p) = p_y p" "p_z (impulse_slot p) = p_z p"
  "p_age (impulse_slot p) = p_age p" "p_life (impulse_slot p) = p_life p"
  "p_size (impulse_slot p) = p_size p" "p_alpha (impulse_slot p) = p_alpha p"
  by (simp_all add: impulse_slot_def Let_def)

lemma impulse_slot_dead: "p_life p \<le> p_age p \<Longrightarrow> impulse_slot p = p"
  by (simp add: impulse_slot_def)

lemma spawnBurst_ignored: "ignored trig \<Longrightarrow> spawnBurst pf trig s = s"
  by (simp add: ignored_def spawnBurst_def split: option.splits)

lemma spawnBurst_slot_general:
  assumes "well_formed s" "i < PARTICLE_CAPACITY"
  shows "slot (spawnBurst pf trig s) i = (if ignored trig then slot s i else spawned_slot pf s i)"
proof (cases "ignored trig")
  case True
  then show ?thesis by (simp add: spawnBurst_ignored)
next
  case False
  then obtain t where "trig = Some t" "stroke t \<notin> set modifier_keys"
    by (auto simp add: ignored_def split: option.splits)
  then show ?thesis using assms False by (simp add: spawnBurst_slot)
qed

lemma spawned_slot_alive:
  "p_age (slot s i) < p_life (slot s i) \<Longrightarrow> spawned_slot pf s i = impulse_slot (slot s i)"
  by (simp add: spawned_slot_def reinitialized_def dead_slot)

lemma spawned_slot_skipped:
  "p_life (slot s i) \<le> p_age (slot s i) \<Longrightarrow> BURST_PARTICLE_COUNT \<le> dead_before s i \<Longrightarrow>
   spawned_slot pf s i = slot s i"
  by (simp add: spawned_slot_def reinitialized_def impulse_slot_dead)

subsection \<open>The invariant of the pool\<close>

lemma settled_impulse_slot: "settled (impulse_slot p) = settled p"
  by (simp add: settled_def retired_def impulse_slot_keeps)

lemma rounding_mono: "rounding f \<Longrightarrow> x \<le> y \<Longrightarrow> f x \<le> f y"
  by (simp add: rounding_def)

lemma rounding_nonneg: "rounding f \<Longrightarrow> 0 \<le> x \<Longrightarrow> 0 \<le> f x"
  using rounding_mono [of f 0 x] by (simp add: rounding_def)

lemma rounding_nonpos: "rounding f \<Longrightarrow> x \<le> 0 \<Longrightarrow> f x \<le> 0"
  using rounding_mono [of f x 0] by (simp add: rounding_def)

lemma rounding_half: "rounding f \<Longrightarrow> 1 / 2 \<le> x \<Longrightarrow> 1 / 2 \<le> f x"
  unfolding rounding_def by metis

lemma respawn_slot_life:
  assumes "valid_platform pf"
  shows "1 / 2 \<le> p_life (respawn_slot pf k)"
proof -
  let ?span = "f64 pf (f64 pf LIFETIME_MAX - f64 pf LIFETIME_MIN)"
  have r32: "rounding (f32 pf)" and r64: "rounding (f64 pf)"
    and r: "0 \<le> random pf (k + 5)"
    using assms by (simp_all add: valid_platform_def valid_random_def)
  have lo: "1 / 2 \<le> f64 pf LIFETIME_MIN"
    by (rule rounding_half [OF r64]) (simp add: LIFETIME_MIN_def)
  have "f64 pf LIFETIME_MIN \<le> f64 pf LIFETIME_MAX"
    by (rule rounding_mono [OF r64]) (simp add: LIFETIME_MIN_def LIFETIME_MAX_def)
  then have "0 \<le> ?span"
    by (intro rounding_nonneg [OF r64]) simp
  then have "0 \<le> random pf (k + 5) * ?span"
    using r by simp
  then have "0 \<le> f64 pf (random pf (k + 5) * ?span)"
    by (rule rounding_nonneg [OF r64])
  then have "1 / 2 \<le> f64 pf LIFETIME_MIN + f64 pf (random pf (k + 5) * ?span)"
    using lo by simp
  then have "1 / 2 \<le> f64 pf (f64 pf LIFETIME_MIN + f64 pf (random pf (k + 5) * ?span))"
    by (rule rounding_half [OF r64])
  then have "1 / 2 \<le> f32 pf (f64 pf (f64 pf LIFETIME_MIN
      + f64 pf (random pf (k + 5) * ?span)))"
    by (rule rounding_half [OF r32])
  then show ?thesis by (simp add: respawn_slot_def)
qed

lemma respawn_slot_age: "p_age (respawn_slot pf k) = 0"
  by (simp add: respawn_slot_def)

lemma settled_respawn_slot: "valid_platform pf \<Longrightarrow> settled (respawn_slot pf k)"
  using respawn_slot_life [of pf k]
  by (simp add: settled_def retired_def respawn_slot_age)

lemma settled_integrate_slot: "settled p \<Longrightarrow> settled (integrate_slot pf delta p)"
  by (simp add: settled_def retired_def integrate_slot_def Let_def)

lemma settled_spawned_slot:
  "valid_platform pf \<Longrightarrow> settled (slot s i) \<Longrightarrow> settled (spawned_slot pf s i)"
  by (simp add: spawned_slot_def settled_impulse_slot settled_respawn_slot)

lemma engine_inv_initial: "engine_inv (initial_engine g cam)"
  by (simp add: engine_inv_def well_formed_def initial_engine_def slot_def settled_def
      retired_def)

lemma engine_inv_attached: "engine_inv s \<Longrightarrow> engine_inv (s\<lparr> geometryRef := g \<rparr>)"
  by (simp add: engine_inv_def)

lemma engine_inv_spawnBurst:
  "valid_platform pf \<Longrightarrow> engine_inv s \<Longrightarrow> engine_inv (spawnBurst pf trig s)"
  by (simp add: engine_inv_def spawnBurst_well_formed spawnBurst_slot_general
      settled_spawned_slot)

lemma engine_inv_useFrame_callback:
  "engine_inv s \<Longrightarrow> engine_inv (useFrame_callback pf delta s)"
  by (simp add: engine_inv_def useFrame_callback_well_formed useFrame_callback_slot
      settled_integrate_slot)

lemma reachable_engine_inv: "reachable pf s \<Longrightarrow> valid_platform pf \<Longrightarrow> engine_inv s"
  by (induction rule: reachable.induct)
     (simp_all add: engine_inv_initial engine_inv_attached engine_inv_spawnBurst
        engine_inv_useFrame_callback)

subsection \<open>The concrete run\<close>

lemma exact_half_simps [simp]:
  "random exact_half = rnd_half" "f32 exact_half x = x" "f64 exact_half x = x"
  by (simp_all add: exact_half_def)

lemma rounding_exact_half: "rounding (f32 exact_half)" "rounding (f64 exact_half)"
  by (simp_all add: rounding_def)

lemma valid_platform_half: "valid_platform exact_half"
  by (simp add: valid_platform_def valid_random_def rnd_half_def rounding_exact_half)

lemma fresh_engine_well_formed: "well_formed fresh_engine"
  by (simp add: fresh_engine_def initial_engine_def well_formed_def)

lemma fresh_engine_slot:
  "i < PARTICLE_CAPACITY \<Longrightarrow>
   slot fresh_engine i =
     \<lparr> p_x = 1000000, p_y = 1000000, p_z = 1000000, v_x = 0, v_y = 0, v_z = 0,
       p_age = real i, p_life = 0, p_size = 0, p_alpha = 0 \<rparr>"
  by (simp add: fresh_engine_def initial_engine_def slot_def)

lemma fresh_engine_dead: "i < PARTICLE_CAPACITY \<Longrightarrow> dead fresh_engine i"
  by (simp add: dead_slot fresh_engine_slot)

lemma dead_before_all: "(\<And>j. j < n \<Longrightarrow> dead s j) \<Longrightarrow> dead_before s n = n"
  by (simp add: dead_before_def)

lemma fresh_engine_dead_before: "n \<le> PARTICLE_CAPACITY \<Longrightarrow> dead_before fresh_engine n = n"
  by (rule dead_before_all) (simp add: fresh_engine_dead)

lemma respawn_slot_half: "respawn_slot exact_half k = centre_particle"
  by (simp add: respawn_slot_def rnd_half_def centre_particle_def randomBetween_def
      SPEED_MIN_def SPEED_MAX_def LIFETIME_MIN_def LIFETIME_MAX_def)

lemma impulse_slot_centre: "impulse_slot centre_particle = centre_particle"
  by (simp add: impulse_slot_def centre_particle_def Let_def)

lemma first_burst_well_formed: "well_formed first_burst"
  by (simp add: first_burst_def spawnBurst_well_formed fresh_engine_well_formed)

lemma first_burst_slot:
  assumes "i < PARTICLE_CAPACITY"
  shows "slot first_burst i =
           (if i < BURST_PARTICLE_COUNT then centre_particle else slot fresh_engine i)"
proof -
  have "slot first_burst i = spawned_slot exact_half fresh_engine i"
    using assms not_ignored_key_a
    by (simp add: first_burst_def spawnBurst_slot_general fresh_engine_well_formed)
  then show ?thesis using assms
    by (simp add: spawned_slot_def reinitialized_def fresh_engine_dead fresh_engine_dead_before
        respawn_slot_half impulse_slot_centre impulse_slot_dead fresh_engine_slot)
qed

lemma fresh_engine_dead_600:
  "lifetimes fresh_engine ! 600 \<le> ages fresh_engine ! 600 \<and>
   BURST_PARTICLE_COUNT \<le> dead_before fresh_engine 600"
  by (simp add: slot_fields fresh_engine_slot fresh_engine_dead_before PARTICLE_CAPACITY_def
      BURST_PARTICLE_COUNT_def)

subsection \<open>Counting the slots that a burst initialises\<close>

lemma dead_before_card: "dead_before s n = card {i. i < n \<and> dead s i}"
proof -
  have "distinct (filter (dead s) [0..<n])" by simp
  then have "card (set (filter (dead s) [0..<n])) = length (filter (dead s) [0..<n])"
    by (rule distinct_card)
  moreover have "set (filter (dead s) [0..<n]) = {i. i < n \<and> dead s i}"
    by auto
  ultimately show ?thesis unfolding dead_before_def by metis
qed

lemma reinitialized_card_step:
  assumes IH: "card {i. i < n \<and> reinitialized s i} = min BURST_PARTICLE_COUNT (dead_before s n)"
  shows "card {i. i < Suc n \<and> reinitialized s i} = min BURST_PARTICLE_COUNT (dead_before s (Suc n))"
proof (cases "reinitialized s n")
  case True
  have "{i. i < Suc n \<and> reinitialized s i} = insert n {i. i < n \<and> reinitialized s i}"
    using True less_Suc_eq by blast
  moreover have "finite {i. i < n \<and> reinitialized s i}" "n \<notin> {i. i < n \<and> reinitialized s i}"
    by simp_all
  ultimately have "card {i. i < Suc n \<and> reinitialized s i}
      = Suc (card {i. i < n \<and> reinitialized s i})"
    by (metis card_insert_disjoint)
  moreover have "dead s n" "dead_before s n < BURST_PARTICLE_COUNT"
    using True by (simp_all add: reinitialized_def)
  moreover have "dead_before s (Suc n) = Suc (dead_before s n)"
    using \<open>dead s n\<close> by (simp add: dead_before_Suc)
  ultimately show ?thesis
    using IH by arith
next
  case False
  have eq: "{i. i < Suc n \<and> reinitialized s i} = {i. i < n \<and> reinitialized s i}"
    using False less_Suc_eq by blast
  have "\<not> dead s n \<or> BURST_PARTICLE_COUNT \<le> dead_before s n"
    using False by (auto simp add: reinitialized_def)
  then have "min BURST_PARTICLE_COUNT (dead_before s (Suc n))
      = min BURST_PARTICLE_COUNT (dead_before s n)"
    unfolding dead_before_Suc by auto
  then show ?thesis
    unfolding eq using IH by simp
qed

lemma reinitialized_card:
  "card {i. i < n \<and> reinitialized s i} = min BURST_PARTICLE_COUNT (dead_before s n)"
proof (induction n)
  case 0
  then show ?case by (simp add: dead_before_def)
next
  case (Suc n)
  then show ?case by (rule reinitialized_card_step)
qed

lemma reinitialized_dead: "reinitialized s i \<Longrightarrow> dead s i"
  by (simp add: reinitialized_def)

lemma respawn_slot_alive:
  "valid_platform pf \<Longrightarrow> p_age (respawn_slot pf k) < p_life (respawn_slot pf k)"
  using respawn_slot_life [of pf k] by (simp add: respawn_slot_age)

lemma spawned_slot_alive_iff:
  assumes "valid_platform pf"
  shows "p_age (spawned_slot pf s i) < p_life (spawned_slot pf s i)
         \<longleftrightarrow> reinitialized s i \<or> alive s i"
proof (cases "reinitialized s i")
  case True
  show ?thesis using True assms
    by (simp add: spawned_slot_def impulse_slot_keeps respawn_slot_alive)
next
  case False
  then show ?thesis
    by (simp add: spawned_slot_def impulse_slot_keeps alive_slot)
qed

lemma respawn_slot_place:
  assumes "0 \<le> random pf k" "random pf k < 1" "0 \<le> random pf (k + 1)" "random pf (k + 1) < 1"
  shows "p_age (respawn_slot pf k) = 0 \<and> \<bar>p_x (respawn_slot pf k)\<bar> \<le> 0.01 \<and>
         \<bar>p_y (respawn_slot pf k)\<bar> \<le> 0.01 \<and> p_z (respawn_slot pf k) = 0"
  using assms by (simp add: respawn_slot_def abs_if)

subsection \<open>One frame on one particle\<close>

lemma integrate_slot_killed:
  assumes "p_age p < p_life p" "p_life p \<le> f32 pf (f64 pf (p_age p + delta))"
  shows "integrate_slot pf delta p =
           p\<lparr> p_x := 1000000, p_y := 1000000, p_z := 1000000,
              v_x := v_x p * VELOCITY_DAMPING,
              v_y := v_y p * VELOCITY_DAMPING + GRAVITY * delta,
              v_z := v_z p * VELOCITY_DAMPING,
              p_age := f32 pf (f64 pf (p_age p + delta)), p_size := 0, p_alpha := 0 \<rparr>"
  using assms by (simp add: integrate_slot_def Let_def)

lemma integrate_slot_survives:
  assumes "p_age p < p_life p" "f32 pf (f64 pf (p_age p + delta)) < p_life p"
  shows "integrate_slot pf delta p =
           p\<lparr> p_x := p_x p + v_x p * VELOCITY_DAMPING * delta,
              p_y := p_y p + (v_y p * VELOCITY_DAMPING + GRAVITY * delta) * delta,
              p_z := p_z p + v_z p * VELOCITY_DAMPING * delta,
              v_x := v_x p * VELOCITY_DAMPING,
              v_y := v_y p * VELOCITY_DAMPING + GRAVITY * delta,
              v_z := v_z p * VELOCITY_DAMPING,
              p_age := f32 pf (f64 pf (p_age p + delta)),
              p_size := p_size p * (if p_age p < 0.06 then 1.04 else 0.999),
              p_alpha := (1 - min 1 (f32 pf (f64 pf (p_age p + delta)) / max 0.0001 (p_life p)))
                         * (1 - min 1 (f32 pf (f64 pf (p_age p + delta))
                                       / max 0.0001 (p_life p))) \<rparr>"
  using assms by (simp add: integrate_slot_def Let_def)

lemma first_burst_slot_0: "slot first_burst 0 = centre_particle"
  by (simp add: first_burst_slot PARTICLE_CAPACITY_def BURST_PARTICLE_COUNT_def)

lemma capacity_pos: "0 < PARTICLE_CAPACITY"
  by (simp add: PARTICLE_CAPACITY_def)

lemma first_burst_frame_slot_0:
  "slot (useFrame_callback exact_half delta first_burst) 0 = integrate_slot exact_half delta centre_particle"
  by (simp add: useFrame_callback_slot first_burst_well_formed capacity_pos first_burst_slot_0)

lemma slot_fields_0:
  "positions s ! 0 = p_x (slot s 0)"
  "positions s ! Suc 0 = p_y (slot s 0)"
  "positions s ! 1 = p_y (slot s 0)"
  "positions s ! Suc (Suc 0) = p_z (slot s 0)"
  "positions s ! 2 = p_z (slot s 0)"
  "velocities s ! 0 = v_x (slot s 0)"
  "velocities s ! Suc 0 = v_y (slot s 0)"
  "velocities s ! 1 = v_y (slot s 0)"
  "velocities s ! Suc (Suc 0) = v_z (slot s 0)"
  "velocities s ! 2 = v_z (slot s 0)"
  by (simp_all add: slot_def numeral_2_eq_2)

lemma first_burst_reachable: "reachable exact_half first_burst"
  unfolding first_burst_def fresh_engine_def
  by (intro reachable.spawned reachable.mounted)

lemma first_burst_alive: "ages first_burst ! 0 < lifetimes first_burst ! 0"
  by (simp add: slot_fields first_burst_slot_0 centre_particle_def)

lemma integrate_slot_motion:
  assumes "p_age p < p_life p"
  shows "v_x (integrate_slot pf delta p) = 0.98 * v_x p"
    "v_y (integrate_slot pf delta p) = 0.98 * v_y p + (- 8) * delta"
    "v_z (integrate_slot pf delta p) = 0.98 * v_z p"
    "p_age (integrate_slot pf delta p) = f32 pf (f64 pf (p_age p + delta))"
  using assms
  by (simp_all add: integrate_slot_def Let_def VELOCITY_DAMPING_def GRAVITY_def)

lemma integrate_slot_alpha:
  assumes "p_age p < p_life p" "0.0001 \<le> p_life p"
  shows "p_alpha (integrate_slot pf delta p)
         = (1 - min 1 (p_age (integrate_slot pf delta p) / p_life p))\<^sup>2"
proof -
  let ?a = "f32 pf (f64 pf (p_age p + delta))"
  have age: "p_age (integrate_slot pf delta p) = ?a"
    using assms(1) by (rule integrate_slot_motion)
  have clamp: "max 0.0001 (p_life p) = p_life p"
    using assms(2) by (rule max_absorb2)
  have pos: "0 < p_life p" using assms(2) by simp
  show ?thesis
  proof (cases "?a < p_life p")
    case True
    have "p_alpha (integrate_slot pf delta p)
        = (1 - min 1 (?a / max 0.0001 (p_life p)))
          * (1 - min 1 (?a / max 0.0001 (p_life p)))"
      unfolding integrate_slot_survives [OF assms(1) True] by simp
    then show ?thesis unfolding clamp age by (simp only: power2_eq_square)
  next
    case False
    then have over: "p_life p \<le> ?a" by simp
    then have "1 \<le> ?a / p_life p"
      using pos by (simp add: le_divide_eq)
    then have "min 1 (?a / p_life p) = 1"
      by (rule min_absorb1)
    moreover have "p_alpha (integrate_slot pf delta p) = 0"
      unfolding integrate_slot_killed [OF assms(1) over] by simp
    ultimately show ?thesis unfolding age by simp
  qed
qed

lemma integrate_slot_advance:
  assumes "p_age p < p_life p" "f32 pf (f64 pf (p_age p + delta)) < p_life p"
  shows "p_x (integrate_slot pf delta p) = p_x p + v_x (integrate_slot pf delta p) * delta"
    "p_y (integrate_slot pf delta p) = p_y p + v_y (integrate_slot pf delta p) * delta"
    "p_z (integrate_slot pf delta p) = p_z p + v_z (integrate_slot pf delta p) * delta"
  unfolding integrate_slot_survives [OF assms] by simp_all

lemma integrate_slot_sentinel:
  assumes "p_age p < p_life p" "p_life p \<le> f32 pf (f64 pf (p_age p + delta))"
  shows "p_x (integrate_slot pf delta p) = 1000000" "p_y (integrate_slot pf delta p) = 1000000"
    "p_z (integrate_slot pf delta p) = 1000000"
  unfolding integrate_slot_killed [OF assms] by simp_all

subsection \<open>The decay of the shake\<close>

lemma camera_shake_magnitude:
  "shakeMagnitudeRef (camera_shake pf delta s) =
     (if 0 < shakeMagnitudeRef s
      then max 0 (f64 pf (shakeMagnitudeRef s - f64 pf (SHAKE_DECAY_PER_SEC * delta)))
      else shakeMagnitudeRef s)"
  by (simp add: camera_shake_def Let_def split: option.splits)

lemma camera_shake_base:
  "baseCamPosRef (camera_shake pf delta s) = Some (base_position s)"
  by (simp add: camera_shake_def Let_def base_position_def split: option.splits)

lemma camera_shake_idle:
  "shakeMagnitudeRef s \<le> 0 \<Longrightarrow>
   camera_position (camera_shake pf delta s) = camera_position s"
  by (simp add: camera_shake_def Let_def split: option.splits)

lemma camera_shake_restores:
  "0 < shakeMagnitudeRef s \<Longrightarrow>
   f64 pf (shakeMagnitudeRef s - f64 pf (SHAKE_DECAY_PER_SEC * delta)) \<le> 0 \<Longrightarrow>
   camera_position (camera_shake pf delta s) = base_position s"
  by (simp add: camera_shake_def Let_def base_position_def max_def split: option.splits)

lemma shake_fields_eq:
  "shake_fields s = shake_fields s' \<Longrightarrow>
   baseCamPosRef s = baseCamPosRef s' \<and> shakeMagnitudeRef s = shakeMagnitudeRef s' \<and>
   camera_position s = camera_position s' \<and> base_position s = base_position s'"
  by (clarsimp simp add: shake_fields_def base_position_def split: option.splits)

lemma useFrame_callback_shake:
  "baseCamPosRef (useFrame_callback pf delta s) = baseCamPosRef (camera_shake pf delta s)"
  "shakeMagnitudeRef (useFrame_callback pf delta s) = shakeMagnitudeRef (camera_shake pf delta s)"
  "camera_position (useFrame_callback pf delta s) = camera_position (camera_shake pf delta s)"
  "base_position (useFrame_callback pf delta s) = base_position (camera_shake pf delta s)"
  using shake_fields_eq [OF useFrame_callback_shake_fields [of pf delta s]] by simp_all

lemma base_position_camera_shake:
  "base_position (camera_shake pf delta s) = base_position s"
  by (simp add: base_position_def camera_shake_base)

lemma at_rest_useFrame_callback:
  "at_rest s b \<Longrightarrow> at_rest (useFrame_callback pf delta s) b"
  by (simp add: at_rest_def useFrame_callback_shake camera_shake_magnitude camera_shake_idle
      base_position_camera_shake)

lemma at_rest_frames: "at_rest s b \<Longrightarrow> at_rest (frames pf dts s) b"
  by (induction dts arbitrary: s) (simp_all add: at_rest_useFrame_callback)

lemma frames_append: "frames pf (xs @ ys) s = frames pf ys (frames pf xs s)"
  by (induction xs arbitrary: s) simp_all

lemma base_position_frames: "base_position (frames pf dts s) = base_position s"
  by (induction dts arbitrary: s)
     (simp_all add: useFrame_callback_shake base_position_camera_shake)

lemma shake_covered:
  assumes "rounding (f64 pf)" "0 < shakeMagnitudeRef s"
    "shakeMagnitudeRef s \<le> f64 pf (SHAKE_DECAY_PER_SEC * dt)"
  shows "at_rest (useFrame_callback pf dt s) (base_position s)"
proof -
  have "shakeMagnitudeRef s - f64 pf (SHAKE_DECAY_PER_SEC * dt) \<le> 0"
    using assms(3) by simp
  then have le: "f64 pf (shakeMagnitudeRef s - f64 pf (SHAKE_DECAY_PER_SEC * dt)) \<le> 0"
    by (rule rounding_nonpos [OF assms(1)])
  then have "shakeMagnitudeRef (useFrame_callback pf dt s) = 0"
    using assms(2) by (simp add: useFrame_callback_shake camera_shake_magnitude)
  moreover have "camera_position (useFrame_callback pf dt s) = base_position s"
    using assms(2) le by (simp add: useFrame_callback_shake camera_shake_restores)
  moreover have "base_position (useFrame_callback pf dt s) = base_position s"
    by (simp add: useFrame_callback_shake base_position_camera_shake)
  ultimately show ?thesis by (simp add: at_rest_def)
qed

lemma frames_base_captured:
  "dts \<noteq> [] \<Longrightarrow> baseCamPosRef (frames pf dts s) = Some (base_position s)"
proof (induction dts arbitrary: s)
  case Nil
  then show ?case by simp
next
  case (Cons dt dts)
  let ?s1 = "useFrame_callback pf dt s"
  have one: "baseCamPosRef ?s1 = Some (base_position s)"
    by (simp add: useFrame_callback_shake camera_shake_base)
  then have base: "base_position ?s1 = base_position s"
    by (simp add: base_position_def)
  show ?case
  proof (cases "dts = []")
    case True
    then show ?thesis using one by simp
  next
    case False
    then show ?thesis using Cons.IH [of ?s1] base by simp
  qed
qed

lemma fresh_engine_camera:
  "baseCamPosRef fresh_engine = None" "camera_position fresh_engine = (0, 0, 5)"
  by (simp_all add: fresh_engine_def initial_engine_def)

lemma first_burst_camera:
  "baseCamPosRef first_burst = None" "camera_position first_burst = (0, 0, 5)"
  "shakeMagnitudeRef first_burst = 0.12"
  using fold_spawn_body_surroundings [of exact_half "[0..<PARTICLE_CAPACITY]" "(fresh_engine, 0)"]
    not_ignored_key_a
  by (simp_all add: first_burst_def spawnBurst_def Let_def surroundings_def ignored_def
      fresh_engine_camera fresh_engine_shake)

subsection \<open>The shock wave\<close>

lemma inside_radius_iff:
  "x * x + y * y + z * z < IMPULSE_RADIUS * IMPULSE_RADIUS
   \<longleftrightarrow> sqrt (x * x + y * y + z * z) < IMPULSE_RADIUS"
proof -
  have "sqrt (IMPULSE_RADIUS * IMPULSE_RADIUS) = \<bar>IMPULSE_RADIUS\<bar>"
    by (rule real_sqrt_abs2)
  moreover have "\<bar>IMPULSE_RADIUS\<bar> = IMPULSE_RADIUS"
    by (simp add: IMPULSE_RADIUS_def)
  ultimately have "sqrt (IMPULSE_RADIUS * IMPULSE_RADIUS) = IMPULSE_RADIUS"
    by simp
  then show ?thesis
    by (metis real_sqrt_less_iff)
qed

lemma scaled_norm:
  fixes x y z c :: real
  assumes "0 \<le> c"
  shows "sqrt (x * c * (x * c) + y * c * (y * c) + z * c * (z * c))
         = c * sqrt (x * x + y * y + z * z)"
proof -
  have "x * c * (x * c) + y * c * (y * c) + z * c * (z * c)
        = (c * c) * (x * x + y * y + z * z)"
    by (simp add: algebra_simps)
  then show ?thesis using assms by (simp add: real_sqrt_mult)
qed

lemma impulse_slot_inside:
  assumes "p_age p < p_life p"
    "sqrt (p_x p * p_x p + p_y p * p_y p + p_z p * p_z p) < IMPULSE_RADIUS"
  shows "impulse_slot p =
     p\<lparr> v_x := v_x p + p_x p / max 0.0001 (sqrt (p_x p * p_x p + p_y p * p_y p + p_z p * p_z p))
                  * (IMPULSE_STRENGTH * (1 - max 0.0001 (sqrt (p_x p * p_x p + p_y p * p_y p + p_z p * p_z p)) / IMPULSE_RADIUS)),
        v_y := v_y p + p_y p / max 0.0001 (sqrt (p_x p * p_x p + p_y p * p_y p + p_z p * p_z p))
                  * (IMPULSE_STRENGTH * (1 - max 0.0001 (sqrt (p_x p * p_x p + p_y p * p_y p + p_z p * p_z p)) / IMPULSE_RADIUS)),
        v_z := v_z p + p_z p / max 0.0001 (sqrt (p_x p * p_x p + p_y p * p_y p + p_z p * p_z p))
                  * (IMPULSE_STRENGTH * (1 - max 0.0001 (sqrt (p_x p * p_x p + p_y p * p_y p + p_z p * p_z p)) / IMPULSE_RADIUS)) \<rparr>"
  using assms unfolding impulse_slot_def Let_def inside_radius_iff by simp

lemma impulse_slot_outside:
  assumes "IMPULSE_RADIUS \<le> sqrt (p_x p * p_x p + p_y p * p_y p + p_z p * p_z p)"
  shows "impulse_slot p = p"
  using assms unfolding impulse_slot_def Let_def inside_radius_iff by simp

lemma impulse_slot_gain:
  assumes alive: "p_age q < p_life q"
    and d: "d = sqrt (p_x q * p_x q + p_y q * p_y q + p_z q * p_z q)"
    and g: "gx = v_x (impulse_slot q) - v_x q" "gy = v_y (impulse_slot q) - v_y q"
       "gz = v_z (impulse_slot q) - v_z q"
  shows "(0.0001 \<le> d \<and> d < IMPULSE_RADIUS \<longrightarrow>
            gx = p_x q / d * (IMPULSE_STRENGTH * (1 - d / IMPULSE_RADIUS)) \<and>
            gy = p_y q / d * (IMPULSE_STRENGTH * (1 - d / IMPULSE_RADIUS)) \<and>
            gz = p_z q / d * (IMPULSE_STRENGTH * (1 - d / IMPULSE_RADIUS)) \<and>
            sqrt (gx * gx + gy * gy + gz * gz) = IMPULSE_STRENGTH * (1 - d / IMPULSE_RADIUS)) \<and>
         (d < 0.0001 \<longrightarrow>
            gx = p_x q / 0.0001 * (IMPULSE_STRENGTH * (1 - 0.0001 / IMPULSE_RADIUS)) \<and>
            gy = p_y q / 0.0001 * (IMPULSE_STRENGTH * (1 - 0.0001 / IMPULSE_RADIUS)) \<and>
            gz = p_z q / 0.0001 * (IMPULSE_STRENGTH * (1 - 0.0001 / IMPULSE_RADIUS)) \<and>
            sqrt (gx * gx + gy * gy + gz * gz) = 49975 * d) \<and>
         (IMPULSE_RADIUS \<le> d \<longrightarrow> gx = 0 \<and> gy = 0 \<and> gz = 0)"
proof (intro conjI impI)
  assume "IMPULSE_RADIUS \<le> d"
  then have "impulse_slot q = q" unfolding d by (rule impulse_slot_outside)
  then show "gx = 0" "gy = 0" "gz = 0" by (simp_all add: g)
next
  assume far: "0.0001 \<le> d \<and> d < IMPULSE_RADIUS"
  then have clamp: "max 0.0001 d = d" by simp
  have inside: "sqrt (p_x q * p_x q + p_y q * p_y q + p_z q * p_z q) < IMPULSE_RADIUS"
    using far d by simp
  let ?c = "IMPULSE_STRENGTH * (1 - d / IMPULSE_RADIUS) / d"
  have x: "gx = p_x q / d * (IMPULSE_STRENGTH * (1 - d / IMPULSE_RADIUS))"
    and y: "gy = p_y q / d * (IMPULSE_STRENGTH * (1 - d / IMPULSE_RADIUS))"
    and z: "gz = p_z q / d * (IMPULSE_STRENGTH * (1 - d / IMPULSE_RADIUS))"
    unfolding g impulse_slot_inside [OF alive inside] d [symmetric] clamp by simp_all
  show "gx = p_x q / d * (IMPULSE_STRENGTH * (1 - d / IMPULSE_RADIUS))" by (rule x)
  show "gy = p_y q / d * (IMPULSE_STRENGTH * (1 - d / IMPULSE_RADIUS))" by (rule y)
  show "gz = p_z q / d * (IMPULSE_STRENGTH * (1 - d / IMPULSE_RADIUS))" by (rule z)
  have dpos: "0 < d" using far by simp
  have nonneg: "0 \<le> ?c"
    using far dpos by (simp add: IMPULSE_STRENGTH_def IMPULSE_RADIUS_def)
  have "gx = p_x q * ?c" "gy = p_y q * ?c" "gz = p_z q * ?c"
    by (simp_all add: x y z)
  then have "sqrt (gx * gx + gy * gy + gz * gz)
      = ?c * sqrt (p_x q * p_x q + p_y q * p_y q + p_z q * p_z q)"
    using scaled_norm [OF nonneg] by simp
  also have "\<dots> = ?c * d" by (simp add: d)
  also have "\<dots> = IMPULSE_STRENGTH * (1 - d / IMPULSE_RADIUS)"
    using dpos by simp
  finally show "sqrt (gx * gx + gy * gy + gz * gz) = IMPULSE_STRENGTH * (1 - d / IMPULSE_RADIUS)" .
next
  assume near: "d < 0.0001"
  then have clamp: "max 0.0001 d = 0.0001" by simp
  have inside: "sqrt (p_x q * p_x q + p_y q * p_y q + p_z q * p_z q) < IMPULSE_RADIUS"
    using near d by (simp add: IMPULSE_RADIUS_def)
  have x: "gx = p_x q / 0.0001 * (IMPULSE_STRENGTH * (1 - 0.0001 / IMPULSE_RADIUS))"
    and y: "gy = p_y q / 0.0001 * (IMPULSE_STRENGTH * (1 - 0.0001 / IMPULSE_RADIUS))"
    and z: "gz = p_z q / 0.0001 * (IMPULSE_STRENGTH * (1 - 0.0001 / IMPULSE_RADIUS))"
    unfolding g impulse_slot_inside [OF alive inside] d [symmetric] clamp by simp_all
  show "gx = p_x q / 0.0001 * (IMPULSE_STRENGTH * (1 - 0.0001 / IMPULSE_RADIUS))" by (rule x)
  show "gy = p_y q / 0.0001 * (IMPULSE_STRENGTH * (1 - 0.0001 / IMPULSE_RADIUS))" by (rule y)
  show "gz = p_z q / 0.0001 * (IMPULSE_STRENGTH * (1 - 0.0001 / IMPULSE_RADIUS))" by (rule z)
  have "gx = p_x q * 49975" "gy = p_y q * 49975" "gz = p_z q * 49975"
    by (simp_all add: x y z IMPULSE_STRENGTH_def IMPULSE_RADIUS_def)
  then have "sqrt (gx * gx + gy * gy + gz * gz)
      = 49975 * sqrt (p_x q * p_x q + p_y q * p_y q + p_z q * p_z q)"
    using scaled_norm [of 49975] by simp
  then show "sqrt (gx * gx + gy * gy + gz * gz) = 49975 * d" by (simp add: d)
qed

lemma impulse_slot_alive: "p_age (impulse_slot q) < p_life (impulse_slot q) \<longleftrightarrow> p_age q < p_life q"
  by (simp add: impulse_slot_keeps)

lemma drifted_well_formed: "well_formed drifted"
  by (simp add: drifted_def useFrame_callback_well_formed first_burst_well_formed)

lemma drifted_slot_0:
  "slot drifted 0 =
     \<lparr> p_x = - 0.04508, p_y = - 0.0008, p_z = 0, v_x = - 4.508, v_y = - 0.08, v_z = 0,
       p_age = 0.01, p_life = 1.2, p_size = 11.44, p_alpha = (1 - 0.01 / 1.2) * (1 - 0.01 / 1.2) \<rparr>"
  by (simp add: drifted_def first_burst_frame_slot_0 integrate_slot_def centre_particle_def
      Let_def VELOCITY_DAMPING_def GRAVITY_def)

lemma second_burst_slot_0: "slot second_burst 0 = impulse_slot (slot drifted 0)"
proof -
  have "slot second_burst 0 = spawned_slot exact_half drifted 0"
    using not_ignored_key_a
    by (simp add: second_burst_def spawnBurst_slot_general drifted_well_formed capacity_pos)
  also have "\<dots> = impulse_slot (slot drifted 0)"
    by (rule spawned_slot_alive) (simp add: drifted_slot_0)
  finally show ?thesis .
qed

lemma drifted_distance:
  "0.0001 \<le> sqrt ((- 0.04508) * (- 0.04508) + (- 0.0008) * (- 0.0008) + 0 * 0)"
  "sqrt ((- 0.04508) * (- 0.04508) + (- 0.0008) * (- 0.0008) + 0 * 0) < IMPULSE_RADIUS"
proof -
  show "0.0001 \<le> sqrt ((- 0.04508) * (- 0.04508) + (- 0.0008) * (- 0.0008) + 0 * 0)"
    by (rule real_le_rsqrt) (simp add: power2_eq_square)
  have "(- 0.04508) * (- 0.04508) + (- 0.0008) * (- 0.0008) + 0 * 0
        < IMPULSE_RADIUS * IMPULSE_RADIUS"
    by (simp add: IMPULSE_RADIUS_def)
  then show "sqrt ((- 0.04508) * (- 0.04508) + (- 0.0008) * (- 0.0008) + 0 * 0) < IMPULSE_RADIUS"
    by (simp only: inside_radius_iff)
qed

lemma second_burst_slot_0_fields:
  "p_x (slot second_burst 0) = - 0.04508" "p_y (slot second_burst 0) = - 0.0008"
  "p_z (slot second_burst 0) = 0" "p_age (slot second_burst 0) = 0.01"
  "p_life (slot second_burst 0) = 1.2"
  by (simp_all add: second_burst_slot_0 impulse_slot_keeps drifted_slot_0)

subsection \<open>Computing with the rounding of doubles\<close>

lemma two_powr_diff: "2 powr (real m - real k) = 2 ^ m / 2 ^ k"
  by (simp add: powr_diff powr_realpow)

lemma round_to_grid:
  assumes lo: "2 ^ (p - 1) \<le> \<bar>X\<bar>" and hi: "\<bar>X\<bar> < 2 ^ p" and p: "0 < p"
  shows "round_to p (X / 2 ^ k) = of_int (round_half_even X) / 2 ^ k"
proof -
  let ?x = "X / 2 ^ k"
  have X0: "X \<noteq> 0"
  proof
    assume "X = 0"
    with lo have "(2::real) ^ (p - 1) \<le> 0" by simp
    moreover have "0 < (2::real) ^ (p - 1)" by (rule zero_less_power) simp
    ultimately show False by linarith
  qed
  then have x0: "?x \<noteq> 0" by simp
  have absx: "\<bar>?x\<bar> = \<bar>X\<bar> / 2 ^ k" by simp
  have e1: "2 powr (real (p - 1) - real k) \<le> \<bar>?x\<bar>"
    unfolding two_powr_diff absx using lo by (simp add: divide_right_mono)
  have "Suc (p - 1) = p" using p by simp
  then have "2 powr (real (p - 1) - real k + 1) = 2 ^ p / 2 ^ k"
    by (metis add.commute add_diff_eq of_nat_Suc two_powr_diff)
  then have e2: "\<bar>?x\<bar> < 2 powr (real (p - 1) - real k + 1)"
    unfolding absx using hi by (simp add: divide_strict_right_mono)
  have "\<lfloor>log 2 \<bar>?x\<bar>\<rfloor> = int (p - 1) - int k"
    using x0 e1 e2 by (subst floor_log_eq_powr_iff) simp_all
  then have e: "real_of_int \<lfloor>log 2 \<bar>?x\<bar>\<rfloor> - real (p - 1) = - real k"
    by simp
  have u: "2 powr (real_of_int \<lfloor>log 2 \<bar>?x\<bar>\<rfloor> - real (p - 1)) = 1 / 2 ^ k"
    unfolding e by (simp add: powr_minus_divide powr_realpow)
  show ?thesis
    using x0 unfolding round_to_def Let_def u by simp
qed

lemma ieee_zero_simps [simp]:
  "random ieee_zero = rnd_zero" "f32 ieee_zero = binary32" "f64 ieee_zero = binary64"
  by (simp_all add: ieee_zero_def)

lemma decrement_0_024: "binary64 (SHAKE_DECAY_PER_SEC * double_0_024) = double_0_024"
proof -
  have g: "round_to 53 (6917529027641082 / 2 ^ 58)
      = of_int (round_half_even 6917529027641082) / 2 ^ 58"
    by (rule round_to_grid) simp_all
  have r: "round_half_even 6917529027641082 = 6917529027641082"
    by (simp add: round_half_even_def)
  show ?thesis
    using g r by (simp add: binary64_def double_0_024_def SHAKE_DECAY_PER_SEC_def)
qed

lemma residue_step_1:
  "binary64 (double_0_12 - double_0_024) = 6917529027641082 / 2 ^ 56"
proof -
  have g: "round_to 53 ((13835058055282163 / 2) / 2 ^ 56)
      = of_int (round_half_even (13835058055282163 / 2)) / 2 ^ 56"
    by (rule round_to_grid) simp_all
  have r: "round_half_even (13835058055282163 / 2) = 6917529027641082"
    by (simp add: round_half_even_def)
  show ?thesis
    using g r by (simp add: binary64_def double_0_12_def double_0_024_def)
qed

lemma residue_step_2:
  "binary64 (6917529027641082 / 2 ^ 56 - double_0_024) = 5188146770730812 / 2 ^ 56"
proof -
  have g: "round_to 53 ((10376293541461623 / 2) / 2 ^ 56)
      = of_int (round_half_even (10376293541461623 / 2)) / 2 ^ 56"
    by (rule round_to_grid) simp_all
  have r: "round_half_even (10376293541461623 / 2) = 5188146770730812"
    by (simp add: round_half_even_def)
  show ?thesis
    using g r by (simp add: binary64_def double_0_024_def)
qed

lemma residue_step_3:
  "binary64 (5188146770730812 / 2 ^ 56 - double_0_024) = 6917529027641083 / 2 ^ 57"
proof -
  have g: "round_to 53 (6917529027641083 / 2 ^ 57)
      = of_int (round_half_even 6917529027641083) / 2 ^ 57"
    by (rule round_to_grid) simp_all
  have r: "round_half_even 6917529027641083 = 6917529027641083"
    by (simp add: round_half_even_def)
  show ?thesis
    using g r by (simp add: binary64_def double_0_024_def)
qed

lemma residue_step_4:
  "binary64 (6917529027641083 / 2 ^ 57 - double_0_024) = 6917529027641084 / 2 ^ 58"
proof -
  have g: "round_to 53 (6917529027641084 / 2 ^ 58)
      = of_int (round_half_even 6917529027641084) / 2 ^ 58"
    by (rule round_to_grid) simp_all
  have r: "round_half_even 6917529027641084 = 6917529027641084"
    by (simp add: round_half_even_def)
  show ?thesis
    using g r by (simp add: binary64_def double_0_024_def)
qed

lemma residue_step_5:
  "binary64 (6917529027641084 / 2 ^ 58 - double_0_024) = 1 / 2 ^ 57"
proof -
  have g: "round_to 53 (4503599627370496 / 2 ^ 109)
      = of_int (round_half_even 4503599627370496) / 2 ^ 109"
    by (rule round_to_grid) simp_all
  have r: "round_half_even 4503599627370496 = 4503599627370496"
    by (simp add: round_half_even_def)
  show ?thesis
    using g r by (simp add: binary64_def double_0_024_def)
qed

lemma camera_shake_shaken:
  assumes "0 < shakeMagnitudeRef s"
    "0 < f64 pf (shakeMagnitudeRef s - f64 pf (SHAKE_DECAY_PER_SEC * delta))"
  shows "camera_position (camera_shake pf delta s) =
     (fst (base_position s) + (random pf (random_calls s) - 0.5) * 2 * shakeMagnitudeRef s,
      fst (snd (base_position s))
        + (random pf (random_calls s + 1) - 0.5) * 2 * shakeMagnitudeRef s * 0.8,
      snd (snd (base_position s))
        + (random pf (random_calls s + 2) - 0.5) * 2 * shakeMagnitudeRef s * 0.3)"
  using assms
  by (simp add: camera_shake_def Let_def base_position_def max_def split: option.splits)

lemma shaking_frame:
  assumes "shakeMagnitudeRef s = m" "0 < m" "binary64 (m - double_0_024) = m'" "0 < m'"
  shows "shakeMagnitudeRef (useFrame_callback ieee_zero double_0_024 s) = m'"
    "fst (camera_position (useFrame_callback ieee_zero double_0_024 s))
       = fst (base_position s) - m"
proof -
  have d: "0 < f64 ieee_zero (shakeMagnitudeRef s
             - f64 ieee_zero (SHAKE_DECAY_PER_SEC * double_0_024))"
    using assms by (simp add: decrement_0_024)
  show "shakeMagnitudeRef (useFrame_callback ieee_zero double_0_024 s) = m'"
    using assms
    by (simp add: useFrame_callback_shake camera_shake_magnitude decrement_0_024)
  show "fst (camera_position (useFrame_callback ieee_zero double_0_024 s))
       = fst (base_position s) - m"
    using assms(1,2)
    by (simp add: useFrame_callback_shake camera_shake_shaken [OF _ d] rnd_zero_def)
qed

lemma shaking_fields:
  "shakeMagnitudeRef shaking = double_0_12" "base_position shaking = (0, 0, 5)"
  by (simp_all add: shaking_def base_position_def fresh_engine_camera)

subsection \<open>Rounding to nearest is monotone\<close>

lemma round_half_even_bounds:
  "\<lfloor>x\<rfloor> \<le> round_half_even x" "round_half_even x \<le> \<lfloor>x\<rfloor> + 1"
  by (simp_all add: round_half_even_def Let_def)

lemma round_half_even_of_int [simp]: "round_half_even (of_int n) = n"
  by (simp add: round_half_even_def)

lemma round_half_even_mono:
  assumes "x \<le> y"
  shows "round_half_even x \<le> round_half_even y"
proof (cases "\<lfloor>x\<rfloor> = \<lfloor>y\<rfloor>")
  case True
  then show ?thesis
    using assms by (auto simp add: round_half_even_def Let_def)
next
  case False
  then have "\<lfloor>x\<rfloor> < \<lfloor>y\<rfloor>"
    using assms floor_mono [of x y] by linarith
  then show ?thesis
    using round_half_even_bounds(2) [of x] round_half_even_bounds(1) [of y] by linarith
qed

lemma round_half_even_minus: "round_half_even (- x) = - round_half_even x"
proof (cases "x = of_int \<lfloor>x\<rfloor>")
  case True
  then have "round_half_even (- of_int \<lfloor>x\<rfloor>) = - round_half_even (of_int \<lfloor>x\<rfloor>)"
    by (metis of_int_minus round_half_even_of_int)
  then show ?thesis using True by simp
next
  case False
  then have lt: "of_int \<lfloor>x\<rfloor> < x"
    using of_int_floor_le [of x] by linarith
  have gt: "x < of_int \<lfloor>x\<rfloor> + 1" by linarith
  have f: "\<lfloor>- x\<rfloor> = - \<lfloor>x\<rfloor> - 1"
  proof (rule floor_unique)
    have c: "(of_int (- \<lfloor>x\<rfloor> - 1) :: real) = - of_int \<lfloor>x\<rfloor> - 1" by simp
    show "of_int (- \<lfloor>x\<rfloor> - 1) \<le> - x" unfolding c using gt by linarith
    show "- x < of_int (- \<lfloor>x\<rfloor> - 1) + 1" unfolding c using lt by linarith
  qed
  show ?thesis
    unfolding round_half_even_def Let_def f
    by (auto simp add: algebra_simps)
qed

lemma round_to_minus: "round_to p (- x) = - round_to p x"
  by (simp add: round_to_def Let_def round_half_even_minus)

lemma round_to_range:
  assumes "0 < x"
  shows "2 powr of_int \<lfloor>log 2 x\<rfloor> \<le> round_to p x"
    "round_to p x \<le> 2 powr (of_int \<lfloor>log 2 x\<rfloor> + 1)"
proof -
  let ?e = "\<lfloor>log 2 x\<rfloor>"
  let ?q = "p - 1"
  let ?u = "(2::real) powr (of_int ?e - of_nat ?q)"
  have u: "0 < ?u" by simp
  have lo: "2 powr of_int ?e \<le> x" and hi: "x < 2 powr (of_int ?e + 1)"
    using assms floor_log_eq_powr_iff [of x 2 ?e] by simp_all
  have pq: "2 powr of_int ?e = 2 ^ ?q * ?u"
    by (simp add: powr_diff powr_realpow)
  have pq1: "2 powr (of_int ?e + 1) = 2 ^ Suc ?q * ?u"
    by (simp add: powr_diff powr_add powr_realpow)
  have "2 ^ ?q * ?u \<le> x" using lo pq by simp
  then have "2 ^ ?q \<le> x / ?u" using u by (simp add: pos_le_divide_eq)
  then have "(of_int (2 ^ ?q) :: real) \<le> x / ?u" by simp
  then have "round_half_even (of_int (2 ^ ?q)) \<le> round_half_even (x / ?u)"
    by (rule round_half_even_mono)
  then have a: "(2::real) ^ ?q \<le> of_int (round_half_even (x / ?u))"
    by (metis of_int_le_iff of_int_numeral of_int_power round_half_even_of_int)
  have "x \<le> 2 ^ Suc ?q * ?u" using hi pq1 by simp
  then have "x / ?u \<le> 2 ^ Suc ?q" using u by (simp add: pos_divide_le_eq)
  then have "x / ?u \<le> (of_int (2 ^ Suc ?q) :: real)" by simp
  then have "round_half_even (x / ?u) \<le> round_half_even (of_int (2 ^ Suc ?q))"
    by (rule round_half_even_mono)
  then have b: "of_int (round_half_even (x / ?u)) \<le> (2::real) ^ Suc ?q"
    by (metis of_int_le_iff of_int_numeral of_int_power round_half_even_of_int)
  have r: "round_to p x = of_int (round_half_even (x / ?u)) * ?u"
    using assms by (simp add: round_to_def Let_def)
  show "2 powr of_int ?e \<le> round_to p x"
    unfolding r pq using a u by (simp add: mult_right_mono)
  show "round_to p x \<le> 2 powr (of_int ?e + 1)"
    unfolding r pq1 using b u by (simp only: mult_right_mono less_imp_le)
qed

lemma round_to_pos: "0 < x \<Longrightarrow> 0 < round_to p x"
  using round_to_range(1) [of x p] powr_gt_zero [of 2 "of_int \<lfloor>log 2 x\<rfloor>"] by linarith

lemma round_to_mono_pos:
  assumes "0 < x" "x \<le> y"
  shows "round_to p x \<le> round_to p y"
proof (cases "\<lfloor>log 2 x\<rfloor> = \<lfloor>log 2 y\<rfloor>")
  case True
  let ?u = "(2::real) powr (of_int \<lfloor>log 2 y\<rfloor> - of_nat (p - 1))"
  have "x / ?u \<le> y / ?u" using assms by (simp add: divide_right_mono)
  then have "round_half_even (x / ?u) \<le> round_half_even (y / ?u)"
    by (rule round_half_even_mono)
  then have "of_int (round_half_even (x / ?u)) * ?u \<le> of_int (round_half_even (y / ?u)) * ?u"
    by (simp add: mult_right_mono)
  then show ?thesis
    using assms True by (simp add: round_to_def Let_def)
next
  case False
  have "log 2 x \<le> log 2 y" using assms by simp
  then have "\<lfloor>log 2 x\<rfloor> \<le> \<lfloor>log 2 y\<rfloor>" by (rule floor_mono)
  then have "\<lfloor>log 2 x\<rfloor> + 1 \<le> \<lfloor>log 2 y\<rfloor>" using False by linarith
  then have "(of_int \<lfloor>log 2 x\<rfloor> :: real) + 1 \<le> of_int \<lfloor>log 2 y\<rfloor>"
    by (metis of_int_1 of_int_add of_int_le_iff)
  then have "(2::real) powr (of_int \<lfloor>log 2 x\<rfloor> + 1) \<le> 2 powr of_int \<lfloor>log 2 y\<rfloor>"
    by (simp only: powr_mono one_le_numeral)
  moreover have "0 < y" using assms by linarith
  ultimately show ?thesis
    using round_to_range(2) [OF assms(1), of p] round_to_range(1) [of y p] by linarith
qed

lemma round_to_zero [simp]: "round_to p 0 = 0"
  by (simp add: round_to_def)

lemma round_to_mono:
  assumes "x \<le> y"
  shows "round_to p x \<le> round_to p y"
proof -
  consider "0 < x" | "x = 0" "y = 0" | "x = 0" "0 < y" | "x < 0" "0 < y" | "x < 0" "y = 0"
    | "x < 0" "y < 0"
    using assms by linarith
  then show ?thesis
  proof cases
    case 1
    then show ?thesis using assms by (rule round_to_mono_pos)
  next
    case 2
    then show ?thesis by simp
  next
    case 3
    then show ?thesis using round_to_pos [of y p] by simp
  next
    case 4
    then have "0 < round_to p (- x)" "0 < round_to p y"
      by (simp_all add: round_to_pos)
    then show ?thesis by (simp add: round_to_minus)
  next
    case 5
    then have "0 < round_to p (- x)" by (simp add: round_to_pos)
    then show ?thesis using 5 by (simp add: round_to_minus)
  next
    case 6
    then have "round_to p (- y) \<le> round_to p (- x)"
      using assms by (intro round_to_mono_pos) simp_all
    then show ?thesis by (simp add: round_to_minus)
  qed
qed

lemma rounding_binary32: "rounding binary32"
proof -
  have g: "round_to 24 (8388608 / 2 ^ 24) = of_int (round_half_even 8388608) / 2 ^ 24"
    by (rule round_to_grid) simp_all
  have r: "round_half_even 8388608 = 8388608"
    by (simp add: round_half_even_def)
  have "binary32 (1 / 2) = 1 / 2"
    using g r by (simp add: binary32_def)
  then show ?thesis
    by (simp add: rounding_def binary32_def round_to_mono)
qed

lemma rounding_binary64: "rounding binary64"
proof -
  have g: "round_to 53 (4503599627370496 / 2 ^ 53)
      = of_int (round_half_even 4503599627370496) / 2 ^ 53"
    by (rule round_to_grid) simp_all
  have r: "round_half_even 4503599627370496 = 4503599627370496"
    by (simp add: round_half_even_def)
  have "binary64 (1 / 2) = 1 / 2"
    using g r by (simp add: binary64_def)
  then show ?thesis
    by (simp add: rounding_def binary64_def round_to_mono)
qed

subsection \<open>The run with the roundings of the program\<close>

lemma ieee_half_simps [simp]:
  "random ieee_half = rnd_half" "f32 ieee_half = binary32" "f64 ieee_half = binary64"
  by (simp_all add: ieee_half_def)

lemma binary64_0_8: "binary64 0.8 = 7205759403792794 / 2 ^ 53"
proof -
  have g: "round_to 53 ((8 * 2 ^ 53 / 10) / 2 ^ 53)
      = of_int (round_half_even (8 * 2 ^ 53 / 10)) / 2 ^ 53"
    by (rule round_to_grid) simp_all
  have r: "round_half_even (8 * 2 ^ 53 / 10) = 7205759403792794"
    by (simp add: round_half_even_def)
  show ?thesis
    using g r by (simp add: binary64_def)
qed

lemma binary64_1_6: "binary64 1.6 = 7205759403792794 / 2 ^ 52"
proof -
  have g: "round_to 53 ((16 * 2 ^ 52 / 10) / 2 ^ 52)
      = of_int (round_half_even (16 * 2 ^ 52 / 10)) / 2 ^ 52"
    by (rule round_to_grid) simp_all
  have r: "round_half_even (16 * 2 ^ 52 / 10) = 7205759403792794"
    by (simp add: round_half_even_def)
  show ?thesis
    using g r by (simp add: binary64_def)
qed

lemma binary64_span:
  "binary64 (7205759403792794 / 2 ^ 52 - 7205759403792794 / 2 ^ 53) = 7205759403792794 / 2 ^ 53"
proof -
  have g: "round_to 53 (7205759403792794 / 2 ^ 53)
      = of_int (round_half_even 7205759403792794) / 2 ^ 53"
    by (rule round_to_grid) simp_all
  have r: "round_half_even 7205759403792794 = 7205759403792794"
    by (simp add: round_half_even_def)
  show ?thesis
    using g r by (simp add: binary64_def)
qed

lemma binary64_half_span:
  "binary64 (1 / 2 * (7205759403792794 / 2 ^ 53)) = 7205759403792794 / 2 ^ 54"
proof -
  have g: "round_to 53 (7205759403792794 / 2 ^ 54)
      = of_int (round_half_even 7205759403792794) / 2 ^ 54"
    by (rule round_to_grid) simp_all
  have r: "round_half_even 7205759403792794 = 7205759403792794"
    by (simp add: round_half_even_def)
  show ?thesis
    using g r by (simp add: binary64_def)
qed

lemma binary64_lifetime:
  "binary64 (7205759403792794 / 2 ^ 53 + 7205759403792794 / 2 ^ 54) = 5404319552844596 / 2 ^ 52"
proof -
  have g: "round_to 53 ((10808639105689191 / 2) / 2 ^ 52)
      = of_int (round_half_even (10808639105689191 / 2)) / 2 ^ 52"
    by (rule round_to_grid) simp_all
  have r: "round_half_even (10808639105689191 / 2) = 5404319552844596"
    by (simp add: round_half_even_def)
  show ?thesis
    using g r by (simp add: binary64_def)
qed

lemma binary32_lifetime: "binary32 (5404319552844596 / 2 ^ 52) = 10066330 / 2 ^ 23"
proof -
  have g: "round_to 24 ((5404319552844596 / 2 ^ 29) / 2 ^ 23)
      = of_int (round_half_even (5404319552844596 / 2 ^ 29)) / 2 ^ 23"
    by (rule round_to_grid) simp_all
  have r: "round_half_even (5404319552844596 / 2 ^ 29) = 10066330"
    by (simp add: round_half_even_def)
  show ?thesis
    using g r by (simp add: binary32_def)
qed

lemma ieee_lifetime: "p_life (respawn_slot ieee_half k) = 10066330 / 2 ^ 23"
proof -
  have "f32 ieee_half (f64 ieee_half (f64 ieee_half LIFETIME_MIN
          + f64 ieee_half (random ieee_half (k + 5)
                           * f64 ieee_half (f64 ieee_half LIFETIME_MAX - f64 ieee_half LIFETIME_MIN))))
        = 10066330 / 2 ^ 23"
    by (simp only: ieee_half_simps LIFETIME_MIN_def LIFETIME_MAX_def rnd_half_def binary64_0_8
        binary64_1_6 binary64_span binary64_half_span binary64_lifetime binary32_lifetime)
  then show ?thesis by (simp add: respawn_slot_def)
qed

lemma respawn_slot_ieee: "respawn_slot ieee_half k = float_particle"
proof -
  have "respawn_slot ieee_half k
      = (respawn_slot exact_half k)\<lparr> p_life := p_life (respawn_slot ieee_half k) \<rparr>"
    by (simp add: respawn_slot_def)
  then show ?thesis by (simp add: ieee_lifetime respawn_slot_half float_particle_def)
qed

lemma impulse_slot_float: "impulse_slot float_particle = float_particle"
  by (simp add: impulse_slot_def float_particle_def centre_particle_def Let_def)

lemma ieee_burst_well_formed: "well_formed ieee_burst"
  by (simp add: ieee_burst_def spawnBurst_well_formed fresh_engine_well_formed)

lemma ieee_burst_slot_0: "slot ieee_burst 0 = float_particle"
proof -
  have "slot ieee_burst 0 = spawned_slot ieee_half fresh_engine 0"
    using capacity_pos not_ignored_key_a
    by (simp add: ieee_burst_def spawnBurst_slot_general fresh_engine_well_formed)
  then show ?thesis using capacity_pos
    by (simp add: spawned_slot_def reinitialized_def fresh_engine_dead fresh_engine_dead_before
        respawn_slot_ieee impulse_slot_float BURST_PARTICLE_COUNT_def)
qed

lemma ieee_burst_reachable: "reachable ieee_half ieee_burst"
  unfolding ieee_burst_def fresh_engine_def
  by (intro reachable.spawned reachable.mounted)

lemma ieee_burst_fields:
  "ages ieee_burst ! 0 = 0" "lifetimes ieee_burst ! 0 = 10066330 / 2 ^ 23"
  "sizes ieee_burst ! 0 = 11" "positions ieee_burst ! 0 = 0" "velocities ieee_burst ! 0 = - 4.6"
  by (simp_all add: slot_fields slot_fields_0 ieee_burst_slot_0 float_particle_def
      centre_particle_def)

lemma ieee_burst_alive: "ages ieee_burst ! 0 < lifetimes ieee_burst ! 0"
  by (simp add: ieee_burst_fields)

lemma ieee_burst_frame_slot_0:
  "slot (useFrame_callback ieee_half delta ieee_burst) 0
     = integrate_slot ieee_half delta float_particle"
  by (simp add: useFrame_callback_slot ieee_burst_well_formed capacity_pos ieee_burst_slot_0)

lemma valid_platform_ieee: "valid_platform ieee_half"
  by (simp add: valid_platform_def valid_random_def rnd_half_def rounding_binary32
      rounding_binary64)

text \<open>
  A frame of 1.19999999 seconds right after the burst: the sum of the age 0 and the
  elapsed time is below the stored lifetime, but the age that the \<open>Float32Array\<close>
  stores is the lifetime itself, and the slot is retired.
\<close>

lemma binary64_long_frame: "binary64 (0 + 1.19999999) = 5404319507808599 / 2 ^ 52"
proof -
  have g: "round_to 53 ((119999999 * 2 ^ 52 / 100000000) / 2 ^ 52)
      = of_int (round_half_even (119999999 * 2 ^ 52 / 100000000)) / 2 ^ 52"
    by (rule round_to_grid) simp_all
  have r: "round_half_even (119999999 * 2 ^ 52 / 100000000) = 5404319507808599"
    by (simp add: round_half_even_def)
  show ?thesis
    using g r by (simp add: binary64_def)
qed

lemma binary32_long_frame: "binary32 (5404319507808599 / 2 ^ 52) = 10066330 / 2 ^ 23"
proof -
  have g: "round_to 24 ((5404319507808599 / 2 ^ 29) / 2 ^ 23)
      = of_int (round_half_even (5404319507808599 / 2 ^ 29)) / 2 ^ 23"
    by (rule round_to_grid) simp_all
  have r: "round_half_even (5404319507808599 / 2 ^ 29) = 10066330"
    by (simp add: round_half_even_def)
  show ?thesis
    using g r by (simp add: binary32_def)
qed

lemma long_frame_age: "f32 ieee_half (f64 ieee_half (0 + 1.19999999)) = 10066330 / 2 ^ 23"
  by (simp only: ieee_half_simps binary64_long_frame binary32_long_frame)

lemma rounded_age_reaches_lifetime:
  "ages ieee_burst ! 0 + 1.19999999 < lifetimes ieee_burst ! 0"
  "ages (useFrame_callback ieee_half 1.19999999 ieee_burst) ! 0 = lifetimes ieee_burst ! 0"
  "lifetimes (useFrame_callback ieee_half 1.19999999 ieee_burst) ! 0 = lifetimes ieee_burst ! 0"
  "positions (useFrame_callback ieee_half 1.19999999 ieee_burst) ! 0 = 1000000"
  "sizes (useFrame_callback ieee_half 1.19999999 ieee_burst) ! 0 = 0"
  "alphas (useFrame_callback ieee_half 1.19999999 ieee_burst) ! 0 = 0"
proof -
  have alive: "p_age float_particle < p_life float_particle"
    by (simp add: float_particle_def centre_particle_def)
  have age: "f32 ieee_half (f64 ieee_half (p_age float_particle + 1.19999999)) = 10066330 / 2 ^ 23"
    using long_frame_age by (simp add: float_particle_def centre_particle_def)
  have over: "p_life float_particle
      \<le> f32 ieee_half (f64 ieee_half (p_age float_particle + 1.19999999))"
    unfolding age by (simp add: float_particle_def)
  note k = integrate_slot_killed [OF alive over]
  show "ages ieee_burst ! 0 + 1.19999999 < lifetimes ieee_burst ! 0"
    by (simp add: ieee_burst_fields)
  show "ages (useFrame_callback ieee_half 1.19999999 ieee_burst) ! 0 = lifetimes ieee_burst ! 0"
    unfolding slot_fields ieee_burst_frame_slot_0 ieee_burst_slot_0 k
    using age by (simp add: float_particle_def)
  show "lifetimes (useFrame_callback ieee_half 1.19999999 ieee_burst) ! 0
      = lifetimes ieee_burst ! 0"
    unfolding slot_fields ieee_burst_frame_slot_0 ieee_burst_slot_0 k by simp
  show "positions (useFrame_callback ieee_half 1.19999999 ieee_burst) ! 0 = 1000000"
    unfolding slot_fields_0 ieee_burst_frame_slot_0 k by simp
  show "sizes (useFrame_callback ieee_half 1.19999999 ieee_burst) ! 0 = 0"
    unfolding slot_fields ieee_burst_frame_slot_0 k by simp
  show "alphas (useFrame_callback ieee_half 1.19999999 ieee_burst) ! 0 = 0"
    unfolding slot_fields ieee_burst_frame_slot_0 k by simp
qed

text \<open>A frame of a tenth of a second: the stored age is the float32 nearest to 0.1.\<close>

lemma binary64_short_frame: "binary64 (0 + 0.1) = 7205759403792794 / 2 ^ 56"
proof -
  have g: "round_to 53 ((2 ^ 56 / 10) / 2 ^ 56)
      = of_int (round_half_even (2 ^ 56 / 10)) / 2 ^ 56"
    by (rule round_to_grid) simp_all
  have r: "round_half_even (2 ^ 56 / 10) = 7205759403792794"
    by (simp add: round_half_even_def)
  show ?thesis
    using g r by (simp add: binary64_def)
qed

lemma binary32_short_frame: "binary32 (7205759403792794 / 2 ^ 56) = 13421773 / 2 ^ 27"
proof -
  have g: "round_to 24 ((7205759403792794 / 2 ^ 29) / 2 ^ 27)
      = of_int (round_half_even (7205759403792794 / 2 ^ 29)) / 2 ^ 27"
    by (rule round_to_grid) simp_all
  have r: "round_half_even (7205759403792794 / 2 ^ 29) = 13421773"
    by (simp add: round_half_even_def)
  show ?thesis
    using g r by (simp add: binary32_def)
qed

lemma short_frame_age: "f32 ieee_half (f64 ieee_half (0 + 0.1)) = 13421773 / 2 ^ 27"
  by (simp only: ieee_half_simps binary64_short_frame binary32_short_frame)

lemma short_frame_stored_age:
  "ages (useFrame_callback ieee_half 0.1 ieee_burst) ! 0 = 13421773 / 2 ^ 27"
proof -
  have alive: "p_age float_particle < p_life float_particle"
    by (simp add: float_particle_def centre_particle_def)
  have "p_age (integrate_slot ieee_half 0.1 float_particle)
      = f32 ieee_half (f64 ieee_half (p_age float_particle + 0.1))"
    using alive by (rule integrate_slot_motion)
  also have "\<dots> = f32 ieee_half (f64 ieee_half (0 + 0.1))"
    by (simp add: float_particle_def centre_particle_def)
  finally show ?thesis
    unfolding slot_fields ieee_burst_frame_slot_0 short_frame_age .
qed

text \<open>The stored lifetime is a float32 number: rounding it again changes nothing.\<close>

lemma binary64_float_lifetime: "binary64 (10066330 / 2 ^ 23) = 10066330 / 2 ^ 23"
proof -
  have g: "round_to 53 ((10066330 * 2 ^ 29) / 2 ^ 52)
      = of_int (round_half_even (10066330 * 2 ^ 29)) / 2 ^ 52"
    by (rule round_to_grid) simp_all
  have r: "round_half_even (10066330 * 2 ^ 29) = 10066330 * 2 ^ 29"
    by (simp add: round_half_even_def)
  show ?thesis
    using g r by (simp add: binary64_def)
qed

lemma binary32_float_lifetime: "binary32 (10066330 / 2 ^ 23) = 10066330 / 2 ^ 23"
proof -
  have g: "round_to 24 (10066330 / 2 ^ 23) = of_int (round_half_even 10066330) / 2 ^ 23"
    by (rule round_to_grid) simp_all
  have r: "round_half_even 10066330 = 10066330"
    by (simp add: round_half_even_def)
  show ?thesis
    using g r by (simp add: binary32_def)
qed

lemma ieee_burst_lifetime_float:
  "f32 ieee_half (f64 ieee_half (lifetimes ieee_burst ! 0)) = lifetimes ieee_burst ! 0"
  by (simp only: ieee_half_simps ieee_burst_fields binary64_float_lifetime
      binary32_float_lifetime)

subsection \<open>The shake in doubles\<close>

lemma binary64_0_12: "binary64 0.12 = double_0_12"
proof -
  have g: "round_to 53 ((12 * 2 ^ 56 / 100) / 2 ^ 56)
      = of_int (round_half_even (12 * 2 ^ 56 / 100)) / 2 ^ 56"
    by (rule round_to_grid) simp_all
  have r: "round_half_even (12 * 2 ^ 56 / 100) = 8646911284551352"
    by (simp add: round_half_even_def)
  show ?thesis
    using g r by (simp add: binary64_def double_0_12_def)
qed

lemma binary64_0_024: "binary64 0.024 = double_0_024"
proof -
  have g: "round_to 53 ((24 * 2 ^ 58 / 1000) / 2 ^ 58)
      = of_int (round_half_even (24 * 2 ^ 58 / 1000)) / 2 ^ 58"
    by (rule round_to_grid) simp_all
  have r: "round_half_even (24 * 2 ^ 58 / 1000) = 6917529027641082"
    by (simp add: round_half_even_def)
  show ?thesis
    using g r by (simp add: binary64_def double_0_024_def)
qed

lemma five_frames_run:
  "shakeMagnitudeRef (frames ieee_zero five_frames shaking) = 1 / 2 ^ 57"
  "fst (camera_position (frames ieee_zero five_frames shaking)) = - (6917529027641084 / 2 ^ 58)"
  "baseCamPosRef (frames ieee_zero five_frames shaking) = Some (0, 0, 5)"
proof -
  let ?d = "double_0_024"
  let ?s1 = "useFrame_callback ieee_zero ?d shaking"
  let ?s2 = "useFrame_callback ieee_zero ?d ?s1"
  let ?s3 = "useFrame_callback ieee_zero ?d ?s2"
  let ?s4 = "useFrame_callback ieee_zero ?d ?s3"
  let ?s5 = "useFrame_callback ieee_zero ?d ?s4"
  have run: "frames ieee_zero five_frames shaking = ?s5"
    by (simp add: five_frames_def)
  have m0: "0 < double_0_12" by (simp add: double_0_12_def)
  have m1: "shakeMagnitudeRef ?s1 = 6917529027641082 / 2 ^ 56"
    by (rule shaking_frame [OF shaking_fields(1) m0 residue_step_1]) simp
  have m2: "shakeMagnitudeRef ?s2 = 5188146770730812 / 2 ^ 56"
    by (rule shaking_frame [OF m1 _ residue_step_2]) simp_all
  have m3: "shakeMagnitudeRef ?s3 = 6917529027641083 / 2 ^ 57"
    by (rule shaking_frame [OF m2 _ residue_step_3]) simp_all
  have m4: "shakeMagnitudeRef ?s4 = 6917529027641084 / 2 ^ 58"
    by (rule shaking_frame [OF m3 _ residue_step_4]) simp_all
  have m5: "shakeMagnitudeRef ?s5 = 1 / 2 ^ 57"
    by (rule shaking_frame [OF m4 _ residue_step_5]) simp_all
  have "base_position ?s4 = base_position shaking"
    using base_position_frames [of ieee_zero "[?d, ?d, ?d, ?d]" shaking] by simp
  then have b4: "base_position ?s4 = (0, 0, 5)"
    by (simp add: shaking_fields)
  have "fst (camera_position ?s5) = fst (base_position ?s4) - 6917529027641084 / 2 ^ 58"
    by (rule shaking_frame [OF m4 _ residue_step_5]) simp_all
  then have c5: "fst (camera_position ?s5) = - (6917529027641084 / 2 ^ 58)"
    by (simp add: b4)
  have base: "baseCamPosRef ?s5 = Some (0, 0, 5)"
    using frames_base_captured [of five_frames ieee_zero shaking]
    by (simp add: run shaking_fields five_frames_def)
  show "shakeMagnitudeRef (frames ieee_zero five_frames shaking) = 1 / 2 ^ 57"
    unfolding run by (rule m5)
  show "fst (camera_position (frames ieee_zero five_frames shaking))
      = - (6917529027641084 / 2 ^ 58)"
    unfolding run by (rule c5)
  show "baseCamPosRef (frames ieee_zero five_frames shaking) = Some (0, 0, 5)"
    unfolding run by (rule base)
qed

lemma five_frames_cover:
  "shakeMagnitudeRef shaking / SHAKE_DECAY_PER_SEC \<le> sum_list five_frames"
  by (simp add: shaking_fields five_frames_def double_0_12_def double_0_024_def
      SHAKE_DECAY_PER_SEC_def)

section \<open>The claims\<close>

text \<open>
  C1. In the state after mounting and in the state after every call of \<open>spawnBurst\<close> or
  of the \<open>useFrame\<close> callback, every slot \<open>i\<close> below the capacity whose age is at least
  its lifetime has alpha 0, size 0 and the position (1e6, 1e6, 1e6). The platform is any
  one whose random numbers lie in [0, 1) and whose roundings are monotone and keep 0 and
  1/2.
\<close>

theorem dead_slots_invisible:
  "valid_platform pf \<Longrightarrow> reachable pf s \<Longrightarrow> i < PARTICLE_CAPACITY \<Longrightarrow>
   lifetimes s ! i \<le> ages s ! i \<Longrightarrow>
   alphas s ! i = 0 \<and> sizes s ! i = 0 \<and>
   positions s ! (i * 3) = 1000000 \<and> positions s ! (i * 3 + 1) = 1000000 \<and>
   positions s ! (i * 3 + 2) = 1000000"
  using reachable_engine_inv [of pf s]
  by (simp add: engine_inv_def settled_def retired_def slot_fields)

theorem dead_slots_invisible_witness:
  "valid_platform exact_half \<and> reachable exact_half (useFrame_callback exact_half 2 first_burst) \<and>
   0 < PARTICLE_CAPACITY \<and>
   lifetimes (useFrame_callback exact_half 2 first_burst) ! 0
     \<le> ages (useFrame_callback exact_half 2 first_burst) ! 0 \<and>
   alphas (useFrame_callback exact_half 2 first_burst) ! 0 = 0 \<and>
   sizes (useFrame_callback exact_half 2 first_burst) ! 0 = 0 \<and>
   positions (useFrame_callback exact_half 2 first_burst) ! 0 = 1000000 \<and>
   positions (useFrame_callback exact_half 2 first_burst) ! 1 = 1000000 \<and>
   positions (useFrame_callback exact_half 2 first_burst) ! 2 = 1000000 \<and>
   valid_platform ieee_half \<and>
   reachable ieee_half (useFrame_callback ieee_half 1.19999999 ieee_burst) \<and>
   lifetimes (useFrame_callback ieee_half 1.19999999 ieee_burst) ! 0
     \<le> ages (useFrame_callback ieee_half 1.19999999 ieee_burst) ! 0 \<and>
   alphas (useFrame_callback ieee_half 1.19999999 ieee_burst) ! 0 = 0 \<and>
   sizes (useFrame_callback ieee_half 1.19999999 ieee_burst) ! 0 = 0 \<and>
   positions (useFrame_callback ieee_half 1.19999999 ieee_burst) ! 0 = 1000000"
proof -
  have r: "reachable exact_half (useFrame_callback exact_half 2 first_burst)"
    unfolding first_burst_def fresh_engine_def
    by (intro reachable.rendered reachable.spawned reachable.mounted)
  have c: "0 < PARTICLE_CAPACITY" by (simp add: PARTICLE_CAPACITY_def)
  have "slot (useFrame_callback exact_half 2 first_burst) 0 = integrate_slot exact_half 2 centre_particle"
    using c by (simp add: useFrame_callback_slot first_burst_well_formed first_burst_slot
        BURST_PARTICLE_COUNT_def)
  then have d: "lifetimes (useFrame_callback exact_half 2 first_burst) ! 0
     \<le> ages (useFrame_callback exact_half 2 first_burst) ! 0"
    by (simp add: slot_fields integrate_slot_def centre_particle_def Let_def)
  have exact: "valid_platform exact_half \<and>
     reachable exact_half (useFrame_callback exact_half 2 first_burst) \<and>
     0 < PARTICLE_CAPACITY \<and>
     lifetimes (useFrame_callback exact_half 2 first_burst) ! 0
       \<le> ages (useFrame_callback exact_half 2 first_burst) ! 0 \<and>
     alphas (useFrame_callback exact_half 2 first_burst) ! 0 = 0 \<and>
     sizes (useFrame_callback exact_half 2 first_burst) ! 0 = 0 \<and>
     positions (useFrame_callback exact_half 2 first_burst) ! 0 = 1000000 \<and>
     positions (useFrame_callback exact_half 2 first_burst) ! 1 = 1000000 \<and>
     positions (useFrame_callback exact_half 2 first_burst) ! 2 = 1000000"
    using dead_slots_invisible [OF valid_platform_half r c d] valid_platform_half r c d
    by (simp add: numeral_2_eq_2)
  have r': "reachable ieee_half (useFrame_callback ieee_half 1.19999999 ieee_burst)"
    using ieee_burst_reachable by (rule reachable.rendered)
  have d': "lifetimes (useFrame_callback ieee_half 1.19999999 ieee_burst) ! 0
     \<le> ages (useFrame_callback ieee_half 1.19999999 ieee_burst) ! 0"
    by (simp only: rounded_age_reaches_lifetime(2,3) order_refl)
  have rounded: "alphas (useFrame_callback ieee_half 1.19999999 ieee_burst) ! 0 = 0 \<and>
     sizes (useFrame_callback ieee_half 1.19999999 ieee_burst) ! 0 = 0 \<and>
     positions (useFrame_callback ieee_half 1.19999999 ieee_burst) ! 0 = 1000000"
    using dead_slots_invisible [OF valid_platform_ieee r' c d']
    by simp
  show ?thesis
    using exact rounded valid_platform_ieee r' d'
    by blast
qed

text \<open>
  C2. For a call of \<open>spawnBurst\<close> with a trigger whose key is not a modifier, the number
  of slots that are dead before the call and alive after it is the minimum of 500 and the
  number of slots dead before the call. When all 5000 slots are dead before the call,
  exactly 500 slots are alive after it, and each of them has age 0, its x and y within
  0.01 of the origin and z equal to 0. The platform is as in C1: the lifetime that the
  loop stores is rounded, and it stays above the age 0.
\<close>

theorem spawnBurst_count:
  assumes "valid_platform pf" "well_formed s"
    "stroke t \<notin> {''Alt'', ''Control'', ''Meta'', ''Shift''}"
  shows "let s' = spawnBurst pf (Some t) s in
     card {i. i < 5000 \<and> lifetimes s ! i \<le> ages s ! i \<and> ages s' ! i < lifetimes s' ! i}
       = min 500 (card {i. i < 5000 \<and> lifetimes s ! i \<le> ages s ! i}) \<and>
     ((\<forall>i<5000. lifetimes s ! i \<le> ages s ! i) \<longrightarrow>
        card {i. i < 5000 \<and> ages s' ! i < lifetimes s' ! i} = 500 \<and>
        (\<forall>i<5000. ages s' ! i < lifetimes s' ! i \<longrightarrow>
           ages s' ! i = 0 \<and> \<bar>positions s' ! (i * 3)\<bar> \<le> 0.01 \<and>
           \<bar>positions s' ! (i * 3 + 1)\<bar> \<le> 0.01 \<and> positions s' ! (i * 3 + 2) = 0))"
proof -
  define s' where "s' = spawnBurst pf (Some t) s"
  have active: "\<not> ignored (Some t)"
    using assms(3) by (simp add: ignored_def modifier_keys_def)
  have slot': "slot s' i = spawned_slot pf s i" if "i < PARTICLE_CAPACITY" for i
    using that assms(2) active by (simp add: s'_def spawnBurst_slot_general)
  have alive': "ages s' ! i < lifetimes s' ! i \<longleftrightarrow> reinitialized s i \<or> alive s i"
    if "i < PARTICLE_CAPACITY" for i
    using that assms(1) by (simp add: slot_fields slot' spawned_slot_alive_iff)
  have dead_iff: "lifetimes s ! i \<le> ages s ! i \<longleftrightarrow> dead s i" for i
    by (simp add: dead_def)
  have not_both: "\<not> (dead s i \<and> alive s i)" for i
    by (simp add: dead_def alive_def)
  have born: "{i. i < PARTICLE_CAPACITY \<and> lifetimes s ! i \<le> ages s ! i \<and> ages s' ! i < lifetimes s' ! i}
      = {i. i < PARTICLE_CAPACITY \<and> reinitialized s i}"
    using alive' not_both reinitialized_dead dead_iff by blast
  have count: "card {i. i < PARTICLE_CAPACITY \<and> lifetimes s ! i \<le> ages s ! i \<and> ages s' ! i < lifetimes s' ! i}
      = min BURST_PARTICLE_COUNT (card {i. i < PARTICLE_CAPACITY \<and> lifetimes s ! i \<le> ages s ! i})"
    unfolding born unfolding dead_iff reinitialized_card dead_before_card ..
  have all_dead: "card {i. i < PARTICLE_CAPACITY \<and> ages s' ! i < lifetimes s' ! i} = 500 \<and>
        (\<forall>i<PARTICLE_CAPACITY. ages s' ! i < lifetimes s' ! i \<longrightarrow>
           ages s' ! i = 0 \<and> \<bar>positions s' ! (i * 3)\<bar> \<le> 0.01 \<and>
           \<bar>positions s' ! (i * 3 + 1)\<bar> \<le> 0.01 \<and> positions s' ! (i * 3 + 2) = 0)"
    if all: "\<forall>i<PARTICLE_CAPACITY. lifetimes s ! i \<le> ages s ! i"
  proof -
    have d: "dead s i" if "i < PARTICLE_CAPACITY" for i
      using all that by (simp add: dead_def)
    have "{i. i < PARTICLE_CAPACITY \<and> ages s' ! i < lifetimes s' ! i}
        = {i. i < PARTICLE_CAPACITY \<and> reinitialized s i}"
      using alive' not_both d by blast
    moreover have "dead_before s PARTICLE_CAPACITY = PARTICLE_CAPACITY"
      using d by (rule dead_before_all)
    ultimately have c: "card {i. i < PARTICLE_CAPACITY \<and> ages s' ! i < lifetimes s' ! i} = 500"
      by (simp add: reinitialized_card PARTICLE_CAPACITY_def BURST_PARTICLE_COUNT_def)
    have place: "ages s' ! i = 0 \<and> \<bar>positions s' ! (i * 3)\<bar> \<le> 0.01 \<and>
           \<bar>positions s' ! (i * 3 + 1)\<bar> \<le> 0.01 \<and> positions s' ! (i * 3 + 2) = 0"
      if i: "i < PARTICLE_CAPACITY" and a: "ages s' ! i < lifetimes s' ! i" for i
    proof -
      have r: "reinitialized s i" using alive' [OF i] a not_both d [OF i] by blast
      let ?k = "random_calls s + 7 * dead_before s i"
      have "slot s' i = impulse_slot (respawn_slot pf ?k)"
        using r i by (simp add: slot' spawned_slot_def)
      moreover have "0 \<le> random pf ?k" "random pf ?k < 1" "0 \<le> random pf (?k + 1)" "random pf (?k + 1) < 1"
        using assms(1) by (simp_all add: valid_platform_def valid_random_def)
      ultimately show ?thesis
        using respawn_slot_place [of pf ?k]
        by (simp add: slot_fields impulse_slot_keeps)
    qed
    show ?thesis using c place by blast
  qed
  show ?thesis
    using count all_dead
    unfolding s'_def [symmetric] Let_def PARTICLE_CAPACITY_def BURST_PARTICLE_COUNT_def
    by blast
qed

theorem spawnBurst_count_witness:
  "valid_platform exact_half \<and> well_formed fresh_engine \<and>
   stroke key_a \<notin> {''Alt'', ''Control'', ''Meta'', ''Shift''} \<and>
   lifetimes fresh_engine ! 4999 \<le> ages fresh_engine ! 4999 \<and>
   card {i. i < 5000 \<and> ages first_burst ! i < lifetimes first_burst ! i} = 500"
proof -
  have k: "stroke key_a \<notin> {''Alt'', ''Control'', ''Meta'', ''Shift''}"
    by (simp add: key_a_def)
  have d: "\<forall>i<5000. lifetimes fresh_engine ! i \<le> ages fresh_engine ! i"
    by (simp add: slot_fields fresh_engine_slot PARTICLE_CAPACITY_def)
  then have d': "lifetimes fresh_engine ! 4999 \<le> ages fresh_engine ! 4999"
    by simp
  show ?thesis
    using spawnBurst_count [OF valid_platform_half fresh_engine_well_formed k]
      valid_platform_half fresh_engine_well_formed k d d'
    unfolding Let_def first_burst_def [symmetric]
    by blast
qed

text \<open>
  C3, as stated, fails at the centre: the division uses the clamped distance 1e-4, so the
  direction \<open>position / 1e-4\<close> is shorter than a unit vector when \<open>d < 1e-4\<close>. A
  particle alive at the origin (\<open>d = 0\<close>) gains no velocity at all in a second burst,
  where the claim's magnitude \<open>IMPULSE_STRENGTH * (1 - d / 0.2)\<close> is 5 (and 4.9975 with the
  clamped distance in the place of \<open>d\<close>).
\<close>

theorem impulse_centre_counterexample:
  "ages first_burst ! 0 < lifetimes first_burst ! 0 \<and>
   positions first_burst ! 0 = 0 \<and> positions first_burst ! 1 = 0 \<and>
   positions first_burst ! 2 = 0 \<and>
   velocities centre_burst ! 0 - velocities first_burst ! 0 = 0 \<and>
   velocities centre_burst ! 1 - velocities first_burst ! 1 = 0 \<and>
   velocities centre_burst ! 2 - velocities first_burst ! 2 = 0 \<and>
   IMPULSE_STRENGTH * (1 - sqrt (0 * 0 + 0 * 0 + 0 * 0) / IMPULSE_RADIUS) = 5 \<and>
   IMPULSE_STRENGTH * (1 - max 0.0001 (sqrt (0 * 0 + 0 * 0 + 0 * 0)) / IMPULSE_RADIUS) = 4.9975"
proof -
  have "slot centre_burst 0 = spawned_slot exact_half first_burst 0"
    using not_ignored_key_a
    by (simp add: centre_burst_def spawnBurst_slot_general first_burst_well_formed capacity_pos)
  also have "\<dots> = impulse_slot (slot first_burst 0)"
    by (rule spawned_slot_alive) (simp add: first_burst_slot_0 centre_particle_def)
  finally have "slot centre_burst 0 = centre_particle"
    by (simp add: first_burst_slot_0 impulse_slot_centre)
  then show ?thesis
    by (simp add: slot_fields slot_fields_0 first_burst_slot_0 centre_particle_def
        IMPULSE_STRENGTH_def IMPULSE_RADIUS_def)
qed

text \<open>
  C3, amended. In a call of \<open>spawnBurst\<close> with a key that is not a modifier, take any
  slot \<open>i\<close> that is alive after the call: it was alive before, or the call has just
  initialised it. Let \<open>(x, y, z)\<close> be its position, \<open>d\<close> its distance from the origin and
  \<open>(gx, gy, gz)\<close> the velocity it gained: its velocity after the call minus its velocity
  before the call or, for a slot just initialised, minus the initial velocity
  \<open>direction * speed\<close> that the call wrote. Then
  \<^item> for \<open>1e-4 \<le> d < IMPULSE_RADIUS\<close> the gain is
    \<open>IMPULSE_STRENGTH * (1 - d / IMPULSE_RADIUS)\<close> along the normalised position vector;
  \<^item> for \<open>d < 1e-4\<close> the gain is \<open>position / 1e-4 * IMPULSE_STRENGTH * (1 - 1e-4 / IMPULSE_RADIUS)\<close>,
    of magnitude \<open>49975 * d\<close>, which is 0 at the centre;
  \<^item> for \<open>d \<ge> IMPULSE_RADIUS\<close>, so also exactly at the radius, the gain is zero.
  In every case the magnitude of the gain is at most 4.9975, below \<open>IMPULSE_STRENGTH\<close>.
\<close>

theorem impulse_gain:
  assumes "well_formed s" "i < PARTICLE_CAPACITY"
    "stroke t \<notin> {''Alt'', ''Control'', ''Meta'', ''Shift''}"
  shows "let s' = spawnBurst pf (Some t) s;
             k = random_calls s + 7 * dead_before s i;
             x = positions s' ! (i * 3);
             y = positions s' ! (i * 3 + 1);
             z = positions s' ! (i * 3 + 2);
             d = sqrt (x * x + y * y + z * z);
             gx = velocities s' ! (i * 3)
                  - (if lifetimes s ! i \<le> ages s ! i then v_x (respawn_slot pf k)
                     else velocities s ! (i * 3));
             gy = velocities s' ! (i * 3 + 1)
                  - (if lifetimes s ! i \<le> ages s ! i then v_y (respawn_slot pf k)
                     else velocities s ! (i * 3 + 1));
             gz = velocities s' ! (i * 3 + 2)
                  - (if lifetimes s ! i \<le> ages s ! i then v_z (respawn_slot pf k)
                     else velocities s ! (i * 3 + 2))
         in ages s' ! i < lifetimes s' ! i \<longrightarrow>
            (0.0001 \<le> d \<and> d < IMPULSE_RADIUS \<longrightarrow>
               gx = x / d * (IMPULSE_STRENGTH * (1 - d / IMPULSE_RADIUS)) \<and>
               gy = y / d * (IMPULSE_STRENGTH * (1 - d / IMPULSE_RADIUS)) \<and>
               gz = z / d * (IMPULSE_STRENGTH * (1 - d / IMPULSE_RADIUS)) \<and>
               sqrt (gx * gx + gy * gy + gz * gz) = IMPULSE_STRENGTH * (1 - d / IMPULSE_RADIUS)) \<and>
            (d < 0.0001 \<longrightarrow>
               gx = x / 0.0001 * (IMPULSE_STRENGTH * (1 - 0.0001 / IMPULSE_RADIUS)) \<and>
               gy = y / 0.0001 * (IMPULSE_STRENGTH * (1 - 0.0001 / IMPULSE_RADIUS)) \<and>
               gz = z / 0.0001 * (IMPULSE_STRENGTH * (1 - 0.0001 / IMPULSE_RADIUS)) \<and>
               sqrt (gx * gx + gy * gy + gz * gz) = 49975 * d) \<and>
            (IMPULSE_RADIUS \<le> d \<longrightarrow> gx = 0 \<and> gy = 0 \<and> gz = 0) \<and>
            sqrt (gx * gx + gy * gy + gz * gz) \<le> 4.9975"
proof -
  define s' where "s' = spawnBurst pf (Some t) s"
  define k where "k = random_calls s + 7 * dead_before s i"
  define q where "q = (if reinitialized s i then respawn_slot pf k else slot s i)"
  have active: "\<not> ignored (Some t)"
    using assms(3) by (simp add: ignored_def modifier_keys_def)
  have slot': "slot s' i = impulse_slot q"
    using assms(1,2) active
    by (simp add: s'_def spawnBurst_slot_general spawned_slot_def q_def k_def)
  have pos: "positions s' ! (i * 3) = p_x q" "positions s' ! (i * 3 + 1) = p_y q"
    "positions s' ! (i * 3 + 2) = p_z q"
    by (simp_all add: slot_fields slot' impulse_slot_keeps)
  have vel: "velocities s' ! (i * 3) = v_x (impulse_slot q)"
    "velocities s' ! (i * 3 + 1) = v_y (impulse_slot q)"
    "velocities s' ! (i * 3 + 2) = v_z (impulse_slot q)"
    by (simp_all add: slot_fields slot')
  have goal: "(0.0001 \<le> d \<and> d < IMPULSE_RADIUS \<longrightarrow>
               gx = p_x q / d * (IMPULSE_STRENGTH * (1 - d / IMPULSE_RADIUS)) \<and>
               gy = p_y q / d * (IMPULSE_STRENGTH * (1 - d / IMPULSE_RADIUS)) \<and>
               gz = p_z q / d * (IMPULSE_STRENGTH * (1 - d / IMPULSE_RADIUS)) \<and>
               sqrt (gx * gx + gy * gy + gz * gz) = IMPULSE_STRENGTH * (1 - d / IMPULSE_RADIUS)) \<and>
            (d < 0.0001 \<longrightarrow>
               gx = p_x q / 0.0001 * (IMPULSE_STRENGTH * (1 - 0.0001 / IMPULSE_RADIUS)) \<and>
               gy = p_y q / 0.0001 * (IMPULSE_STRENGTH * (1 - 0.0001 / IMPULSE_RADIUS)) \<and>
               gz = p_z q / 0.0001 * (IMPULSE_STRENGTH * (1 - 0.0001 / IMPULSE_RADIUS)) \<and>
               sqrt (gx * gx + gy * gy + gz * gz) = 49975 * d) \<and>
            (IMPULSE_RADIUS \<le> d \<longrightarrow> gx = 0 \<and> gy = 0 \<and> gz = 0) \<and>
            sqrt (gx * gx + gy * gy + gz * gz) \<le> 4.9975"
    if a: "ages s' ! i < lifetimes s' ! i"
      and d: "d = sqrt (p_x q * p_x q + p_y q * p_y q + p_z q * p_z q)"
      and gx: "gx = v_x (impulse_slot q)
                  - (if lifetimes s ! i \<le> ages s ! i then v_x (respawn_slot pf k)
                     else velocities s ! (i * 3))"
      and gy: "gy = v_y (impulse_slot q)
                  - (if lifetimes s ! i \<le> ages s ! i then v_y (respawn_slot pf k)
                     else velocities s ! (i * 3 + 1))"
      and gz: "gz = v_z (impulse_slot q)
                  - (if lifetimes s ! i \<le> ages s ! i then v_z (respawn_slot pf k)
                     else velocities s ! (i * 3 + 2))"
    for d gx gy gz
  proof -
    have alive: "p_age q < p_life q"
      using a by (simp add: slot_fields slot' impulse_slot_keeps)
    have q: "q = (if lifetimes s ! i \<le> ages s ! i then respawn_slot pf k else slot s i)"
    proof (cases "reinitialized s i")
      case True
      then show ?thesis by (simp add: q_def reinitialized_def dead_def)
    next
      case False
      then have "q = slot s i" by (simp add: q_def)
      then have "ages s ! i < lifetimes s ! i" using alive by (simp add: slot_fields)
      then show ?thesis using \<open>q = slot s i\<close> by simp
    qed
    have "gx = v_x (impulse_slot q) - v_x q" "gy = v_y (impulse_slot q) - v_y q"
      "gz = v_z (impulse_slot q) - v_z q"
      unfolding gx gy gz by (simp_all add: q slot_fields)
    with alive d have cases: "(0.0001 \<le> d \<and> d < IMPULSE_RADIUS \<longrightarrow>
               gx = p_x q / d * (IMPULSE_STRENGTH * (1 - d / IMPULSE_RADIUS)) \<and>
               gy = p_y q / d * (IMPULSE_STRENGTH * (1 - d / IMPULSE_RADIUS)) \<and>
               gz = p_z q / d * (IMPULSE_STRENGTH * (1 - d / IMPULSE_RADIUS)) \<and>
               sqrt (gx * gx + gy * gy + gz * gz) = IMPULSE_STRENGTH * (1 - d / IMPULSE_RADIUS)) \<and>
            (d < 0.0001 \<longrightarrow>
               gx = p_x q / 0.0001 * (IMPULSE_STRENGTH * (1 - 0.0001 / IMPULSE_RADIUS)) \<and>
               gy = p_y q / 0.0001 * (IMPULSE_STRENGTH * (1 - 0.0001 / IMPULSE_RADIUS)) \<and>
               gz = p_z q / 0.0001 * (IMPULSE_STRENGTH * (1 - 0.0001 / IMPULSE_RADIUS)) \<and>
               sqrt (gx * gx + gy * gy + gz * gz) = 49975 * d) \<and>
            (IMPULSE_RADIUS \<le> d \<longrightarrow> gx = 0 \<and> gy = 0 \<and> gz = 0)"
      by (rule impulse_slot_gain)
    have "sqrt (gx * gx + gy * gy + gz * gz) \<le> 4.9975"
    proof -
      consider "d < 0.0001" | "0.0001 \<le> d \<and> d < IMPULSE_RADIUS" | "IMPULSE_RADIUS \<le> d"
        by linarith
      then show ?thesis
      proof cases
        case 1
        then have "sqrt (gx * gx + gy * gy + gz * gz) = 49975 * d" using cases by blast
        then show ?thesis using 1 by simp
      next
        case 2
        then have "sqrt (gx * gx + gy * gy + gz * gz) = IMPULSE_STRENGTH * (1 - d / IMPULSE_RADIUS)"
          using cases by blast
        then show ?thesis using 2 by (simp add: IMPULSE_STRENGTH_def IMPULSE_RADIUS_def)
      next
        case 3
        then have "gx = 0 \<and> gy = 0 \<and> gz = 0" using cases by blast
        then show ?thesis by simp
      qed
    qed
    with cases show ?thesis by blast
  qed
  show ?thesis
    unfolding Let_def s'_def [symmetric] k_def [symmetric] pos vel
    using goal by blast
qed

theorem impulse_gain_witness:
  "well_formed drifted \<and> 0 < PARTICLE_CAPACITY \<and>
   stroke key_a \<notin> {''Alt'', ''Control'', ''Meta'', ''Shift''} \<and>
   ages second_burst ! 0 < lifetimes second_burst ! 0 \<and>
   0.0001 \<le> sqrt (positions second_burst ! 0 * positions second_burst ! 0
                 + positions second_burst ! 1 * positions second_burst ! 1
                 + positions second_burst ! 2 * positions second_burst ! 2) \<and>
   sqrt (positions second_burst ! 0 * positions second_burst ! 0
         + positions second_burst ! 1 * positions second_burst ! 1
         + positions second_burst ! 2 * positions second_burst ! 2) < IMPULSE_RADIUS \<and>
   velocities second_burst ! 0 - velocities drifted ! 0
     = positions second_burst ! 0
       / sqrt (positions second_burst ! 0 * positions second_burst ! 0
               + positions second_burst ! 1 * positions second_burst ! 1
               + positions second_burst ! 2 * positions second_burst ! 2)
       * (IMPULSE_STRENGTH
          * (1 - sqrt (positions second_burst ! 0 * positions second_burst ! 0
                       + positions second_burst ! 1 * positions second_burst ! 1
                       + positions second_burst ! 2 * positions second_burst ! 2)
                 / IMPULSE_RADIUS))"
proof -
  have k: "stroke key_a \<notin> {''Alt'', ''Control'', ''Meta'', ''Shift''}"
    by (simp add: key_a_def)
  have alive: "ages second_burst ! (0 * 3 div 3) < lifetimes second_burst ! (0 * 3 div 3)"
    by (simp add: slot_fields second_burst_slot_0_fields)
  have before: "\<not> lifetimes drifted ! 0 \<le> ages drifted ! 0"
    by (simp add: slot_fields drifted_slot_0)
  have p: "positions second_burst ! (0 * 3) = - 0.04508"
    "positions second_burst ! (0 * 3 + 1) = - 0.0008"
    "positions second_burst ! (0 * 3 + 2) = 0"
    unfolding slot_fields by (simp_all add: second_burst_slot_0_fields)
  have p': "positions second_burst ! 0 = - 0.04508" "positions second_burst ! 1 = - 0.0008"
    "positions second_burst ! 2 = 0"
    unfolding slot_fields_0 by (simp_all add: second_burst_slot_0_fields)
  note T = impulse_gain [OF drifted_well_formed capacity_pos k, of exact_half,
      unfolded Let_def, folded second_burst_def, unfolded p]
  have "velocities second_burst ! (0 * 3) - velocities drifted ! (0 * 3)
     = (- 0.04508) / sqrt ((- 0.04508) * (- 0.04508) + (- 0.0008) * (- 0.0008) + 0 * 0)
       * (IMPULSE_STRENGTH
          * (1 - sqrt ((- 0.04508) * (- 0.04508) + (- 0.0008) * (- 0.0008) + 0 * 0)
                 / IMPULSE_RADIUS))"
    using T alive before drifted_distance by simp
  then have "velocities second_burst ! 0 - velocities drifted ! 0
     = positions second_burst ! 0
       / sqrt (positions second_burst ! 0 * positions second_burst ! 0
               + positions second_burst ! 1 * positions second_burst ! 1
               + positions second_burst ! 2 * positions second_burst ! 2)
       * (IMPULSE_STRENGTH
          * (1 - sqrt (positions second_burst ! 0 * positions second_burst ! 0
                       + positions second_burst ! 1 * positions second_burst ! 1
                       + positions second_burst ! 2 * positions second_burst ! 2)
                 / IMPULSE_RADIUS))"
    unfolding p' by simp
  moreover have "0.0001 \<le> sqrt (positions second_burst ! 0 * positions second_burst ! 0
                 + positions second_burst ! 1 * positions second_burst ! 1
                 + positions second_burst ! 2 * positions second_burst ! 2)"
    "sqrt (positions second_burst ! 0 * positions second_burst ! 0
         + positions second_burst ! 1 * positions second_burst ! 1
         + positions second_burst ! 2 * positions second_burst ! 2) < IMPULSE_RADIUS"
    unfolding p' using drifted_distance by simp_all
  moreover have "ages second_burst ! 0 < lifetimes second_burst ! 0"
    using alive by simp
  ultimately show ?thesis
    using drifted_well_formed capacity_pos k by blast
qed

text \<open>
  C4, as stated, fails on the position: a frame that kills the particle overwrites the
  advanced position with (1e6, 1e6, 1e6). After a burst, a frame with an elapsed time of 2
  gives the first particle the x velocity -4.508, and its x position is 1e6 and not
  0 + (-4.508) * 2.
\<close>

theorem integrate_position_counterexample:
  "ages first_burst ! 0 < lifetimes first_burst ! 0 \<and>
   velocities (useFrame_callback exact_half 2 first_burst) ! 0 = - 4.508 \<and>
   positions first_burst ! 0 = 0 \<and>
   positions (useFrame_callback exact_half 2 first_burst) ! 0 = 1000000 \<and>
   positions (useFrame_callback exact_half 2 first_burst) ! 0
     \<noteq> positions first_burst ! 0 + velocities (useFrame_callback exact_half 2 first_burst) ! 0 * 2"
  by (simp add: slot_fields slot_fields_0 first_burst_slot_0 first_burst_frame_slot_0
      integrate_slot_def centre_particle_def Let_def VELOCITY_DAMPING_def)

text \<open>
  C4, amended. For every alive slot of a state of a run and every call of the \<open>useFrame\<close>
  callback: the new velocity is (0.98 vx, 0.98 vy + (-8) dt, 0.98 vz), the new age is
  \<open>age + dt\<close> as the \<open>Float32Array\<close> stores it (the sum of doubles, rounded to a
  float32), and alpha is \<open>(1 - t)\<^sup>2\<close> with \<open>t = min 1 (newAge / lifetime)\<close>. When the
  stored new age is below the lifetime, the position is advanced by the new velocity times
  dt; when it has reached the lifetime, the position is (1e6, 1e6, 1e6).
\<close>

theorem integrate_step:
  assumes "valid_platform pf" "reachable pf s" "i < PARTICLE_CAPACITY"
    "ages s ! i < lifetimes s ! i"
  shows "let s' = useFrame_callback pf dt s;
             t = min 1 (ages s' ! i / lifetimes s ! i) in
     velocities s' ! (i * 3) = 0.98 * velocities s ! (i * 3) \<and>
     velocities s' ! (i * 3 + 1) = 0.98 * velocities s ! (i * 3 + 1) + (- 8) * dt \<and>
     velocities s' ! (i * 3 + 2) = 0.98 * velocities s ! (i * 3 + 2) \<and>
     ages s' ! i = f32 pf (f64 pf (ages s ! i + dt)) \<and>
     alphas s' ! i = (1 - t)\<^sup>2 \<and>
     (ages s' ! i < lifetimes s ! i \<longrightarrow>
        positions s' ! (i * 3) = positions s ! (i * 3) + velocities s' ! (i * 3) * dt \<and>
        positions s' ! (i * 3 + 1) = positions s ! (i * 3 + 1) + velocities s' ! (i * 3 + 1) * dt \<and>
        positions s' ! (i * 3 + 2) = positions s ! (i * 3 + 2) + velocities s' ! (i * 3 + 2) * dt) \<and>
     (lifetimes s ! i \<le> ages s' ! i \<longrightarrow>
        positions s' ! (i * 3) = 1000000 \<and> positions s' ! (i * 3 + 1) = 1000000 \<and>
        positions s' ! (i * 3 + 2) = 1000000)"
proof -
  have inv: "engine_inv s" using assms(2,1) by (rule reachable_engine_inv)
  then have wf: "well_formed s" and st: "settled (slot s i)"
    using assms(3) by (simp_all add: engine_inv_def)
  have alive: "p_age (slot s i) < p_life (slot s i)"
    using assms(4) by (simp add: slot_fields)
  then have "1 / 2 \<le> p_life (slot s i)"
    using st by (simp add: settled_def)
  then have life: "0.0001 \<le> p_life (slot s i)"
    by simp
  have eq: "slot (useFrame_callback pf dt s) i = integrate_slot pf dt (slot s i)"
    using wf assms(3) by (rule useFrame_callback_slot)
  have age: "p_age (integrate_slot pf dt (slot s i)) = f32 pf (f64 pf (p_age (slot s i) + dt))"
    using alive by (rule integrate_slot_motion)
  show ?thesis
    unfolding Let_def slot_fields eq
    using integrate_slot_motion [OF alive, of pf dt] integrate_slot_alpha [OF alive life, of pf dt]
      integrate_slot_advance [OF alive, of pf dt] integrate_slot_sentinel [OF alive, of pf dt]
    by (simp add: age)
qed

theorem integrate_step_witness:
  "valid_platform exact_half \<and> reachable exact_half first_burst \<and> 0 < PARTICLE_CAPACITY \<and>
   ages first_burst ! 0 < lifetimes first_burst ! 0 \<and>
   ages (useFrame_callback exact_half 1 first_burst) ! 0 < lifetimes first_burst ! 0 \<and>
   velocities (useFrame_callback exact_half 1 first_burst) ! 0 = - 4.508 \<and>
   velocities (useFrame_callback exact_half 1 first_burst) ! 1 = - 8 \<and>
   ages (useFrame_callback exact_half 1 first_burst) ! 0 = 1 \<and>
   alphas (useFrame_callback exact_half 1 first_burst) ! 0 = 1 / 36 \<and>
   positions (useFrame_callback exact_half 1 first_burst) ! 0 = - 4.508 \<and>
   lifetimes first_burst ! 0 \<le> ages (useFrame_callback exact_half 2 first_burst) ! 0 \<and>
   positions (useFrame_callback exact_half 2 first_burst) ! 0 = 1000000 \<and>
   valid_platform ieee_half \<and> reachable ieee_half ieee_burst \<and>
   ages ieee_burst ! 0 < lifetimes ieee_burst ! 0 \<and>
   ages ieee_burst ! 0 + 1.19999999 < lifetimes ieee_burst ! 0 \<and>
   lifetimes ieee_burst ! 0 \<le> ages (useFrame_callback ieee_half 1.19999999 ieee_burst) ! 0 \<and>
   velocities (useFrame_callback ieee_half 1.19999999 ieee_burst) ! 0 = - 4.508 \<and>
   positions (useFrame_callback ieee_half 1.19999999 ieee_burst) ! 0 = 1000000"
proof -
  have f: "ages first_burst ! 0 = 0" "lifetimes first_burst ! 0 = 1.2"
    "velocities first_burst ! 0 = - 4.6" "velocities first_burst ! Suc 0 = 0"
    "positions first_burst ! 0 = 0"
    by (simp_all add: slot_fields slot_fields_0 first_burst_slot_0 centre_particle_def)
  have g: "ages (useFrame_callback exact_half 1 first_burst) ! 0 = 1"
    "ages (useFrame_callback exact_half 2 first_burst) ! 0 = 2"
    by (simp_all add: slot_fields first_burst_frame_slot_0 integrate_slot_def
        centre_particle_def Let_def)
  have exact: "valid_platform exact_half \<and> reachable exact_half first_burst \<and>
     0 < PARTICLE_CAPACITY \<and>
     ages first_burst ! 0 < lifetimes first_burst ! 0 \<and>
     ages (useFrame_callback exact_half 1 first_burst) ! 0 < lifetimes first_burst ! 0 \<and>
     velocities (useFrame_callback exact_half 1 first_burst) ! 0 = - 4.508 \<and>
     velocities (useFrame_callback exact_half 1 first_burst) ! 1 = - 8 \<and>
     ages (useFrame_callback exact_half 1 first_burst) ! 0 = 1 \<and>
     alphas (useFrame_callback exact_half 1 first_burst) ! 0 = 1 / 36 \<and>
     positions (useFrame_callback exact_half 1 first_burst) ! 0 = - 4.508 \<and>
     lifetimes first_burst ! 0 \<le> ages (useFrame_callback exact_half 2 first_burst) ! 0 \<and>
     positions (useFrame_callback exact_half 2 first_burst) ! 0 = 1000000"
    using integrate_step [OF valid_platform_half first_burst_reachable capacity_pos first_burst_alive,
        of 1]
      integrate_step [OF valid_platform_half first_burst_reachable capacity_pos first_burst_alive,
        of 2]
      valid_platform_half first_burst_reachable capacity_pos first_burst_alive
    by (simp add: Let_def f g power2_eq_square)
  have under: "ages ieee_burst ! 0 + 1.19999999 < lifetimes ieee_burst ! 0"
    by (rule rounded_age_reaches_lifetime)
  have over: "lifetimes ieee_burst ! 0
      \<le> ages (useFrame_callback ieee_half 1.19999999 ieee_burst) ! 0"
    by (simp only: rounded_age_reaches_lifetime(2) order_refl)
  have rounded: "velocities (useFrame_callback ieee_half 1.19999999 ieee_burst) ! 0 = - 4.508 \<and>
     positions (useFrame_callback ieee_half 1.19999999 ieee_burst) ! 0 = 1000000"
    using integrate_step [OF valid_platform_ieee ieee_burst_reachable capacity_pos ieee_burst_alive,
        of "1.19999999"] over
    by (simp add: Let_def ieee_burst_fields)
  show ?thesis
    using exact rounded under over valid_platform_ieee ieee_burst_reachable ieee_burst_alive
    by blast
qed

text \<open>
  C5, as stated, fails: the test \<open>age < 0.06\<close> reads the local \<open>age\<close>, the age before
  this frame's advance. In the first frame after a burst, with an elapsed time of 0.1, a
  new particle survives and its advanced age 0.1 is not below 0.06, yet its size has been
  multiplied by 1.04 and not by 0.999.
\<close>

theorem size_easing_counterexample:
  "ages first_burst ! 0 < lifetimes first_burst ! 0 \<and>
   ages (useFrame_callback exact_half 0.1 first_burst) ! 0
     < lifetimes (useFrame_callback exact_half 0.1 first_burst) ! 0 \<and>
   \<not> ages (useFrame_callback exact_half 0.1 first_burst) ! 0 < 0.06 \<and>
   sizes (useFrame_callback exact_half 0.1 first_burst) ! 0 \<noteq> sizes first_burst ! 0 * 0.999"
  by (simp add: slot_fields first_burst_slot_0 first_burst_frame_slot_0 integrate_slot_def
      centre_particle_def Let_def)

text \<open>
  C5, amended. For an alive slot and a call of the \<open>useFrame\<close> callback that does not
  kill it (the new age, as stored, is below the lifetime), the new age is \<open>age + dt\<close> as
  the \<open>Float32Array\<close> stores it, and the size is multiplied by 1.04 when the age before
  the advance is below 0.06, and by 0.999 otherwise.
\<close>

theorem size_easing_previous_age:
  assumes "well_formed s" "i < PARTICLE_CAPACITY" "ages s ! i < lifetimes s ! i"
    "ages (useFrame_callback pf dt s) ! i < lifetimes s ! i"
  shows "ages (useFrame_callback pf dt s) ! i = f32 pf (f64 pf (ages s ! i + dt)) \<and>
         sizes (useFrame_callback pf dt s) ! i
           = sizes s ! i * (if ages s ! i < 0.06 then 1.04 else 0.999)"
proof -
  have alive: "p_age (slot s i) < p_life (slot s i)"
    using assms(3) by (simp add: slot_fields)
  have eq: "slot (useFrame_callback pf dt s) i = integrate_slot pf dt (slot s i)"
    using assms(1,2) by (rule useFrame_callback_slot)
  have age: "p_age (integrate_slot pf dt (slot s i)) = f32 pf (f64 pf (p_age (slot s i) + dt))"
    using alive by (rule integrate_slot_motion)
  have under: "f32 pf (f64 pf (p_age (slot s i) + dt)) < p_life (slot s i)"
    using assms(4) by (simp add: slot_fields eq age)
  show ?thesis
    by (simp add: slot_fields eq integrate_slot_survives [OF alive under])
qed

theorem size_easing_previous_age_witness:
  "well_formed first_burst \<and> 0 < PARTICLE_CAPACITY \<and>
   ages first_burst ! 0 < lifetimes first_burst ! 0 \<and>
   ages (useFrame_callback exact_half 0.1 first_burst) ! 0 < lifetimes first_burst ! 0 \<and>
   ages (useFrame_callback exact_half 0.1 first_burst) ! 0 = 0.1 \<and>
   sizes (useFrame_callback exact_half 0.1 first_burst) ! 0 = 11.44 \<and>
   well_formed ieee_burst \<and> ages ieee_burst ! 0 < lifetimes ieee_burst ! 0 \<and>
   ages (useFrame_callback ieee_half 0.1 ieee_burst) ! 0 < lifetimes ieee_burst ! 0 \<and>
   ages (useFrame_callback ieee_half 0.1 ieee_burst) ! 0 = 13421773 / 2 ^ 27 \<and>
   sizes (useFrame_callback ieee_half 0.1 ieee_burst) ! 0 = 11.44"
proof -
  have a: "ages first_burst ! 0 < lifetimes first_burst ! 0"
    by (simp add: slot_fields first_burst_slot_0 centre_particle_def)
  have b: "ages (useFrame_callback exact_half 0.1 first_burst) ! 0 < lifetimes first_burst ! 0"
    by (simp add: slot_fields first_burst_slot_0 first_burst_frame_slot_0 integrate_slot_def
        centre_particle_def Let_def)
  have c: "ages first_burst ! 0 = 0" "sizes first_burst ! 0 = 11"
    by (simp_all add: slot_fields first_burst_slot_0 centre_particle_def)
  have exact: "well_formed first_burst \<and> 0 < PARTICLE_CAPACITY \<and>
     ages first_burst ! 0 < lifetimes first_burst ! 0 \<and>
     ages (useFrame_callback exact_half 0.1 first_burst) ! 0 < lifetimes first_burst ! 0 \<and>
     ages (useFrame_callback exact_half 0.1 first_burst) ! 0 = 0.1 \<and>
     sizes (useFrame_callback exact_half 0.1 first_burst) ! 0 = 11.44"
    using size_easing_previous_age [OF first_burst_well_formed capacity_pos a b]
      first_burst_well_formed capacity_pos a b
    by (simp add: c)
  have b': "ages (useFrame_callback ieee_half 0.1 ieee_burst) ! 0 < lifetimes ieee_burst ! 0"
    unfolding short_frame_stored_age by (simp add: ieee_burst_fields)
  have rounded: "sizes (useFrame_callback ieee_half 0.1 ieee_burst) ! 0 = 11.44"
    using size_easing_previous_age [OF ieee_burst_well_formed capacity_pos ieee_burst_alive b']
    by (simp add: ieee_burst_fields)
  show ?thesis
    using exact rounded b' ieee_burst_well_formed ieee_burst_alive short_frame_stored_age
    by blast
qed

text \<open>
  C6, as stated, fails in the doubles of the program. From the magnitude 0.12, five frames
  of 0.024 seconds have elapsed times that sum to more than 0.12 (both numbers taken as
  the doubles they are), yet the five rounded subtractions leave the magnitude
  \<open>2\<^sup>-\<^sup>5\<^sup>7\<close>, not 0, so the test \<open>=== 0\<close> fails and the camera stays displaced from the base
  position (0, 0, 5).
\<close>

theorem shake_residue_counterexample:
  "shakeMagnitudeRef shaking = binary64 0.12 \<and>
   five_frames = [binary64 0.024, binary64 0.024, binary64 0.024, binary64 0.024, binary64 0.024] \<and>
   0 < shakeMagnitudeRef shaking \<and>
   shakeMagnitudeRef shaking / SHAKE_DECAY_PER_SEC \<le> sum_list five_frames \<and>
   shakeMagnitudeRef (frames ieee_zero five_frames shaking) = 1 / 2 ^ 57 \<and>
   shakeMagnitudeRef (frames ieee_zero five_frames shaking) \<noteq> 0 \<and>
   baseCamPosRef (frames ieee_zero five_frames shaking) = Some (0, 0, 5) \<and>
   fst (camera_position (frames ieee_zero five_frames shaking)) = - (6917529027641084 / 2 ^ 58) \<and>
   camera_position (frames ieee_zero five_frames shaking) \<noteq> (0, 0, 5)"
proof -
  have lit: "shakeMagnitudeRef shaking = binary64 0.12"
    "five_frames = [binary64 0.024, binary64 0.024, binary64 0.024, binary64 0.024, binary64 0.024]"
    by (simp_all only: shaking_fields five_frames_def binary64_0_12 binary64_0_024)
  have m0: "0 < shakeMagnitudeRef shaking"
    by (simp add: shaking_fields double_0_12_def)
  have m5: "shakeMagnitudeRef (frames ieee_zero five_frames shaking) \<noteq> 0"
    unfolding five_frames_run by simp
  have "fst (camera_position (frames ieee_zero five_frames shaking)) \<noteq> fst (0 :: real, 0 :: real, 5 :: real)"
    unfolding five_frames_run by simp
  then have away: "camera_position (frames ieee_zero five_frames shaking) \<noteq> (0, 0, 5)"
    by (rule contrapos_nn) (simp only:)
  show ?thesis
    using lit m0 m5 away five_frames_cover five_frames_run
    by (simp only: simp_thms)
qed

text \<open>
  C6, amended. Let the shake magnitude be positive and let only frames follow (no call of
  \<open>spawnBurst\<close>). A frame that starts with the magnitude \<open>mag > 0\<close> leaves
  \<open>max 0 (mag - SHAKE_DECAY_PER_SEC * dt)\<close>, computed in doubles. In the first frame
  whose decrement \<open>SHAKE_DECAY_PER_SEC * dt\<close> is at least the magnitude left by the
  frames \<open>before\<close> it, the magnitude becomes 0 and the camera is put at the base
  position, and both stay so over any later frames. The base position is the one in
  \<open>baseCamPosRef\<close>, or, when no frame has run before, the position of the camera that
  the first frame captures.
\<close>

theorem shake_rests_after_covering_frame:
  assumes "rounding (f64 pf)" "0 < shakeMagnitudeRef (frames pf before s)"
    "shakeMagnitudeRef (frames pf before s) \<le> f64 pf (SHAKE_DECAY_PER_SEC * dt)"
  shows "let s' = frames pf (before @ dt # later) s;
             base = (case baseCamPosRef s of Some c \<Rightarrow> c | None \<Rightarrow> camera_position s) in
         shakeMagnitudeRef s' = 0 \<and> camera_position s' = base \<and> baseCamPosRef s' = Some base \<and>
         shakeMagnitudeRef (useFrame_callback pf dt' (frames pf before s))
           = max 0 (f64 pf (shakeMagnitudeRef (frames pf before s)
                            - f64 pf (SHAKE_DECAY_PER_SEC * dt')))"
proof -
  let ?s0 = "frames pf before s"
  have "at_rest (useFrame_callback pf dt ?s0) (base_position ?s0)"
    using assms by (rule shake_covered)
  then have "at_rest (frames pf later (useFrame_callback pf dt ?s0)) (base_position s)"
    by (simp add: base_position_frames at_rest_frames)
  then have rest: "at_rest (frames pf (before @ dt # later) s) (base_position s)"
    by (simp add: frames_append)
  have "baseCamPosRef (frames pf (before @ dt # later) s) = Some (base_position s)"
    by (rule frames_base_captured) simp
  moreover have "shakeMagnitudeRef (useFrame_callback pf dt' ?s0)
      = max 0 (f64 pf (shakeMagnitudeRef ?s0 - f64 pf (SHAKE_DECAY_PER_SEC * dt')))"
    using assms(2) by (simp add: useFrame_callback_shake camera_shake_magnitude)
  ultimately show ?thesis
    using rest by (simp add: at_rest_def Let_def base_position_def)
qed

theorem shake_rests_after_covering_frame_witness:
  "rounding (f64 exact_half) \<and>
   0 < shakeMagnitudeRef (frames exact_half [0.05, 0.05] first_burst) \<and>
   shakeMagnitudeRef (frames exact_half [0.05, 0.05] first_burst)
     \<le> f64 exact_half (SHAKE_DECAY_PER_SEC * 0.05) \<and>
   shakeMagnitudeRef (frames exact_half ([0.05, 0.05] @ 0.05 # [0.016]) first_burst) = 0 \<and>
   camera_position (frames exact_half ([0.05, 0.05] @ 0.05 # [0.016]) first_burst) = (0, 0, 5) \<and>
   rounding (f64 ieee_zero) \<and>
   0 < shakeMagnitudeRef (frames ieee_zero five_frames shaking) \<and>
   shakeMagnitudeRef (frames ieee_zero five_frames shaking)
     \<le> f64 ieee_zero (SHAKE_DECAY_PER_SEC * double_0_024) \<and>
   shakeMagnitudeRef (frames ieee_zero (five_frames @ double_0_024 # []) shaking) = 0 \<and>
   camera_position (frames ieee_zero (five_frames @ double_0_024 # []) shaking) = (0, 0, 5)"
proof -
  have m: "shakeMagnitudeRef (frames exact_half [0.05, 0.05] first_burst) = 0.02"
    by (simp add: useFrame_callback_shake camera_shake_magnitude first_burst_camera
        SHAKE_DECAY_PER_SEC_def)
  have a: "0 < shakeMagnitudeRef (frames exact_half [0.05, 0.05] first_burst)"
    unfolding m by simp
  have b: "shakeMagnitudeRef (frames exact_half [0.05, 0.05] first_burst)
     \<le> f64 exact_half (SHAKE_DECAY_PER_SEC * 0.05)"
    unfolding m by (simp add: SHAKE_DECAY_PER_SEC_def)
  have exact: "rounding (f64 exact_half) \<and>
     0 < shakeMagnitudeRef (frames exact_half [0.05, 0.05] first_burst) \<and>
     shakeMagnitudeRef (frames exact_half [0.05, 0.05] first_burst)
       \<le> f64 exact_half (SHAKE_DECAY_PER_SEC * 0.05) \<and>
     shakeMagnitudeRef (frames exact_half ([0.05, 0.05] @ 0.05 # [0.016]) first_burst) = 0 \<and>
     camera_position (frames exact_half ([0.05, 0.05] @ 0.05 # [0.016]) first_burst) = (0, 0, 5)"
    using shake_rests_after_covering_frame [OF rounding_exact_half(2) a b, of "[0.016]"]
      rounding_exact_half(2) a b
    by (simp add: Let_def first_burst_camera del: frames.simps append.simps)
  have r: "rounding (f64 ieee_zero)"
    by (simp add: rounding_binary64)
  have a': "0 < shakeMagnitudeRef (frames ieee_zero five_frames shaking)"
    unfolding five_frames_run by simp
  have b': "shakeMagnitudeRef (frames ieee_zero five_frames shaking)
     \<le> f64 ieee_zero (SHAKE_DECAY_PER_SEC * double_0_024)"
    unfolding five_frames_run ieee_zero_simps decrement_0_024
    by (simp add: double_0_024_def)
  have rounded: "shakeMagnitudeRef (frames ieee_zero (five_frames @ double_0_024 # []) shaking) = 0 \<and>
     camera_position (frames ieee_zero (five_frames @ double_0_024 # []) shaking) = (0, 0, 5)"
    using shake_rests_after_covering_frame [OF r a' b', of "[]"]
    by (simp add: Let_def shaking_def fresh_engine_camera del: frames.simps append.simps)
  show ?thesis
    using exact rounded r a' b'
    by (simp only: simp_thms)
qed

text \<open>
  C7. When the \<open>useFrame\<close> callback runs with an elapsed time greater than the remaining
  lifetime (lifetime minus age) of an alive slot, the slot's position is (1e6, 1e6, 1e6),
  its alpha 0 and its size 0 after the call, and after any further calls of the callback
  (\<open>dts\<close> are their elapsed times) they still are. Rounding the new age cannot save the
  slot: rounding is monotone and the lifetime in the slot is a float32 number already.
\<close>

theorem overshoot_retires_slot:
  assumes "rounding (f32 pf)" "rounding (f64 pf)"
    "well_formed s" "i < PARTICLE_CAPACITY" "ages s ! i < lifetimes s ! i"
    "lifetimes s ! i - ages s ! i < dt"
    "f32 pf (f64 pf (lifetimes s ! i)) = lifetimes s ! i"
  shows "let s' = frames pf dts (useFrame_callback pf dt s) in
     positions s' ! (i * 3) = 1000000 \<and> positions s' ! (i * 3 + 1) = 1000000 \<and>
     positions s' ! (i * 3 + 2) = 1000000 \<and> alphas s' ! i = 0 \<and> sizes s' ! i = 0"
proof -
  let ?s1 = "useFrame_callback pf dt s"
  have alive: "p_age (slot s i) < p_life (slot s i)"
    using assms(5) by (simp add: slot_fields)
  have "p_life (slot s i) \<le> p_age (slot s i) + dt"
    using assms(6) by (simp add: slot_fields)
  then have "f64 pf (p_life (slot s i)) \<le> f64 pf (p_age (slot s i) + dt)"
    by (rule rounding_mono [OF assms(2)])
  then have "f32 pf (f64 pf (p_life (slot s i))) \<le> f32 pf (f64 pf (p_age (slot s i) + dt))"
    by (rule rounding_mono [OF assms(1)])
  then have over: "p_life (slot s i) \<le> f32 pf (f64 pf (p_age (slot s i) + dt))"
    using assms(7) by (simp add: slot_fields)
  have s1: "slot ?s1 i = integrate_slot pf dt (slot s i)"
    using assms(3,4) by (rule useFrame_callback_slot)
  have killed: "p_x (slot ?s1 i) = 1000000 \<and> p_y (slot ?s1 i) = 1000000 \<and>
     p_z (slot ?s1 i) = 1000000 \<and> p_alpha (slot ?s1 i) = 0 \<and> p_size (slot ?s1 i) = 0 \<and>
     p_life (slot ?s1 i) \<le> p_age (slot ?s1 i)"
    using over by (simp add: s1 integrate_slot_killed [OF alive over])
  have "well_formed ?s1" using assms(3) by (rule useFrame_callback_well_formed)
  then have "slot (frames pf dts ?s1) i = slot ?s1 i"
    using assms(4) killed by (simp add: frames_slot_dead)
  then show ?thesis using killed by (simp add: slot_fields Let_def)
qed

theorem overshoot_retires_slot_witness:
  "rounding (f32 exact_half) \<and> rounding (f64 exact_half) \<and>
   well_formed first_burst \<and> 0 < PARTICLE_CAPACITY \<and>
   ages first_burst ! 0 < lifetimes first_burst ! 0 \<and>
   lifetimes first_burst ! 0 - ages first_burst ! 0 < 2 \<and>
   f32 exact_half (f64 exact_half (lifetimes first_burst ! 0)) = lifetimes first_burst ! 0 \<and>
   positions (frames exact_half [1, 1] (useFrame_callback exact_half 2 first_burst)) ! 0 = 1000000 \<and>
   alphas (frames exact_half [1, 1] (useFrame_callback exact_half 2 first_burst)) ! 0 = 0 \<and>
   sizes (frames exact_half [1, 1] (useFrame_callback exact_half 2 first_burst)) ! 0 = 0 \<and>
   rounding (f32 ieee_half) \<and> rounding (f64 ieee_half) \<and> well_formed ieee_burst \<and>
   ages ieee_burst ! 0 < lifetimes ieee_burst ! 0 \<and>
   lifetimes ieee_burst ! 0 - ages ieee_burst ! 0 < 1.25 \<and>
   f32 ieee_half (f64 ieee_half (lifetimes ieee_burst ! 0)) = lifetimes ieee_burst ! 0 \<and>
   positions (frames ieee_half [1, 1] (useFrame_callback ieee_half 1.25 ieee_burst)) ! 0 = 1000000 \<and>
   alphas (frames ieee_half [1, 1] (useFrame_callback ieee_half 1.25 ieee_burst)) ! 0 = 0 \<and>
   sizes (frames ieee_half [1, 1] (useFrame_callback ieee_half 1.25 ieee_burst)) ! 0 = 0"
proof -
  have a: "ages first_burst ! 0 < lifetimes first_burst ! 0"
    by (simp add: slot_fields first_burst_slot_0 centre_particle_def)
  have b: "lifetimes first_burst ! 0 - ages first_burst ! 0 < 2"
    by (simp add: slot_fields first_burst_slot_0 centre_particle_def)
  have c: "f32 exact_half (f64 exact_half (lifetimes first_burst ! 0)) = lifetimes first_burst ! 0"
    by simp
  have exact: "rounding (f32 exact_half) \<and> rounding (f64 exact_half) \<and>
     well_formed first_burst \<and> 0 < PARTICLE_CAPACITY \<and>
     ages first_burst ! 0 < lifetimes first_burst ! 0 \<and>
     lifetimes first_burst ! 0 - ages first_burst ! 0 < 2 \<and>
     f32 exact_half (f64 exact_half (lifetimes first_burst ! 0)) = lifetimes first_burst ! 0 \<and>
     positions (frames exact_half [1, 1] (useFrame_callback exact_half 2 first_burst)) ! 0 = 1000000 \<and>
     alphas (frames exact_half [1, 1] (useFrame_callback exact_half 2 first_burst)) ! 0 = 0 \<and>
     sizes (frames exact_half [1, 1] (useFrame_callback exact_half 2 first_burst)) ! 0 = 0"
    using overshoot_retires_slot [OF rounding_exact_half first_burst_well_formed capacity_pos a b c,
        of "[1, 1]"]
      rounding_exact_half first_burst_well_formed capacity_pos a b
    by (simp add: Let_def)
  have r: "rounding (f32 ieee_half)" "rounding (f64 ieee_half)"
    by (simp_all add: rounding_binary32 rounding_binary64)
  have b': "lifetimes ieee_burst ! 0 - ages ieee_burst ! 0 < 1.25"
    by (simp add: ieee_burst_fields)
  have rounded:
    "positions (frames ieee_half [1, 1] (useFrame_callback ieee_half 1.25 ieee_burst)) ! 0 = 1000000 \<and>
     alphas (frames ieee_half [1, 1] (useFrame_callback ieee_half 1.25 ieee_burst)) ! 0 = 0 \<and>
     sizes (frames ieee_half [1, 1] (useFrame_callback ieee_half 1.25 ieee_burst)) ! 0 = 0"
    using overshoot_retires_slot [OF r ieee_burst_well_formed capacity_pos ieee_burst_alive b'
        ieee_burst_lifetime_float, of "[1, 1]"]
    by (simp add: Let_def del: frames.simps)
  show ?thesis
    using exact rounded r ieee_burst_well_formed ieee_burst_alive b' ieee_burst_lifetime_float
    by (simp only: simp_thms)
qed

text \<open>
  C8. A call of \<open>spawnBurst\<close> whose trigger is null, or whose key is one of Alt, Control,
  Meta, Shift, changes nothing: the state after the call is the state before it, so no
  slot becomes alive, no velocity changes, no \<open>needsUpdate\<close> flag is set and the shake
  magnitude is what it was.
\<close>

theorem spawnBurst_ignored_noop:
  "trig = None \<or> (\<exists>t. trig = Some t \<and> stroke t \<in> {''Alt'', ''Control'', ''Meta'', ''Shift''})
   \<Longrightarrow> spawnBurst pf trig s = s"
  by (auto simp add: spawnBurst_def modifier_keys_def)

theorem spawnBurst_ignored_noop_witness:
  "spawnBurst exact_half None first_burst = first_burst \<and>
   spawnBurst exact_half (Some key_shift) first_burst = first_burst"
  using spawnBurst_ignored_noop [of None exact_half first_burst]
        spawnBurst_ignored_noop [of "Some key_shift" exact_half first_burst]
  by (simp add: key_shift_def)

text \<open>
  C9. A call of \<open>spawnBurst\<close> with a trigger whose key is not a modifier sets the shake
  magnitude to the maximum of its current value and 0.12.
\<close>

theorem spawnBurst_raises_shake:
  "stroke t \<notin> {''Alt'', ''Control'', ''Meta'', ''Shift''} \<Longrightarrow>
   shakeMagnitudeRef (spawnBurst pf (Some t) s) = max (shakeMagnitudeRef s) 0.12"
  using fold_spawn_body_surroundings [of pf "[0..<PARTICLE_CAPACITY]" "(s, 0)"]
  by (simp add: spawnBurst_def Let_def surroundings_def modifier_keys_def)

theorem spawnBurst_raises_shake_witness:
  "stroke key_a \<notin> {''Alt'', ''Control'', ''Meta'', ''Shift''} \<and>
   shakeMagnitudeRef first_burst = 0.12"
  using spawnBurst_raises_shake [of key_a exact_half fresh_engine]
  by (simp add: first_burst_def fresh_engine_shake key_a_def)

text \<open>
  C10. A call of \<open>spawnBurst\<close>, with any trigger, leaves the position, age, lifetime,
  size and alpha of every slot that is alive before the call as they are (the velocity
  is the only field the shock wave writes). A slot that is dead before the call and that
  the call does not initialise again keeps every field, the velocity too; the call
  initialises a dead slot again only when the trigger is not ignored and fewer than
  \<open>BURST_PARTICLE_COUNT\<close> dead slots precede it (\<open>dead_before s i\<close> counts them).
\<close>

theorem spawnBurst_frame:
  assumes "well_formed s" "i < PARTICLE_CAPACITY"
  shows "let s' = spawnBurst pf trig s in
    (ages s ! i < lifetimes s ! i \<longrightarrow>
       positions s' ! (i * 3) = positions s ! (i * 3) \<and>
       positions s' ! (i * 3 + 1) = positions s ! (i * 3 + 1) \<and>
       positions s' ! (i * 3 + 2) = positions s ! (i * 3 + 2) \<and>
       ages s' ! i = ages s ! i \<and> lifetimes s' ! i = lifetimes s ! i \<and>
       sizes s' ! i = sizes s ! i \<and> alphas s' ! i = alphas s ! i) \<and>
    (lifetimes s ! i \<le> ages s ! i \<and>
     (ignored trig \<or> BURST_PARTICLE_COUNT \<le> dead_before s i) \<longrightarrow>
       positions s' ! (i * 3) = positions s ! (i * 3) \<and>
       positions s' ! (i * 3 + 1) = positions s ! (i * 3 + 1) \<and>
       positions s' ! (i * 3 + 2) = positions s ! (i * 3 + 2) \<and>
       velocities s' ! (i * 3) = velocities s ! (i * 3) \<and>
       velocities s' ! (i * 3 + 1) = velocities s ! (i * 3 + 1) \<and>
       velocities s' ! (i * 3 + 2) = velocities s ! (i * 3 + 2) \<and>
       ages s' ! i = ages s ! i \<and> lifetimes s' ! i = lifetimes s ! i \<and>
       sizes s' ! i = sizes s ! i \<and> alphas s' ! i = alphas s ! i)"
proof (cases "ignored trig")
  case True
  then show ?thesis by (simp add: spawnBurst_ignored)
next
  case False
  then have eq: "slot (spawnBurst pf trig s) i = spawned_slot pf s i"
    using assms by (simp add: spawnBurst_slot_general)
  have live: "slot (spawnBurst pf trig s) i = impulse_slot (slot s i)"
    if "ages s ! i < lifetimes s ! i"
    using that eq by (simp add: spawned_slot_alive slot_fields)
  have skipped: "slot (spawnBurst pf trig s) i = slot s i"
    if "lifetimes s ! i \<le> ages s ! i" "BURST_PARTICLE_COUNT \<le> dead_before s i"
    using that eq by (simp add: spawned_slot_skipped slot_fields)
  show ?thesis
    using False live skipped
    by (simp add: slot_fields impulse_slot_keeps Let_def)
qed

theorem spawnBurst_frame_witness:
  "well_formed first_burst \<and> 0 < PARTICLE_CAPACITY \<and>
   ages first_burst ! 0 < lifetimes first_burst ! 0 \<and>
   positions (spawnBurst exact_half (Some key_a) first_burst) ! 0 = positions first_burst ! 0 \<and>
   sizes (spawnBurst exact_half (Some key_a) first_burst) ! 0 = sizes first_burst ! 0 \<and>
   well_formed fresh_engine \<and> 600 < PARTICLE_CAPACITY \<and>
   lifetimes fresh_engine ! 600 \<le> ages fresh_engine ! 600 \<and>
   BURST_PARTICLE_COUNT \<le> dead_before fresh_engine 600 \<and>
   velocities first_burst ! (600 * 3) = velocities fresh_engine ! (600 * 3) \<and>
   alphas first_burst ! 600 = alphas fresh_engine ! 600"
proof -
  have c: "0 < PARTICLE_CAPACITY" "600 < PARTICLE_CAPACITY"
    by (simp_all add: PARTICLE_CAPACITY_def)
  show ?thesis
    using spawnBurst_frame [OF first_burst_well_formed c(1), of exact_half "Some key_a"]
      spawnBurst_frame [OF fresh_engine_well_formed c(2), of exact_half "Some key_a"]
      first_burst_alive fresh_engine_dead_600 c
      first_burst_well_formed fresh_engine_well_formed
    by (simp add: Let_def first_burst_def)
qed

end
